theory Spec2Isabelle
  imports Complex_Main "HOL-Library.Sublist"
begin

text \<open>
  A shallow embedding of \<open>opennsfw2/model.py\<close>: the weight store, the layer factory, the
  two residual blocks and the assembly of the network. The functions keep their names,
  without the leading underscore of the private ones. The module-level dictionary
  \<open>WEIGHTS\<close> is the parameter \<open>W\<close> of every function that reads it. Building the Keras
  graph is modelled symbolically, together with the shape rules Keras applies while
  the graph is built; no tensor is ever evaluated.
\<close>

section \<open>Errors and the result type\<close>

text \<open>
  Every failure of the program is a Python \<open>ValueError\<close>. The ones the module raises
  itself (in \<open>_get_weights\<close>) carry the formatted message; the ones raised inside the
  Keras calls while a layer is created or applied to a symbolic tensor are kept apart by
  their constructor, with a short description of the rule that was violated.
\<close>

datatype error =
    ValueError string
  | KerasValueError string

definition andthen :: "error + 'a \<Rightarrow> ('a \<Rightarrow> error + 'b) \<Rightarrow> error + 'b" where
  "andthen r k = (case r of Inl e \<Rightarrow> Inl e | Inr v \<Rightarrow> k v)"

section \<open>Formatting integers as Python's f-strings do\<close>

definition digit_char :: "nat \<Rightarrow> char" where
  "digit_char d = ''0123456789'' ! d"

fun str_nat :: "nat \<Rightarrow> string" where
  "str_nat n = (if n < 10 then [digit_char n] else str_nat (n div 10) @ [digit_char (n mod 10)])"

definition str_int :: "int \<Rightarrow> string" where
  "str_int i = (if i < 0 then CHR ''-'' # str_nat (nat (- i)) else str_nat (nat i))"

section \<open>The weight store\<close>

text \<open>
  \<open>WEIGHTS\<close> is a dictionary from layer names to dictionaries from field names to arrays.
  The arrays stay abstract (type \<open>'a\<close>); \<open>astype_float32\<close> stands for numpy's
  \<open>.astype(np.float32)\<close> and is a parameter of every function that reads the store.
\<close>

type_synonym 'a weights = "string \<Rightarrow> (string \<Rightarrow> 'a option) option"

definition get_weights ::
  "('a \<Rightarrow> 'a) \<Rightarrow> 'a weights \<Rightarrow> string \<Rightarrow> string \<Rightarrow> error + 'a" where
  "get_weights astype_float32 WEIGHTS layer_name field_name =
     (case WEIGHTS layer_name of
        None \<Rightarrow> Inl (ValueError (''No weights found for layer '' @ layer_name @ ''.''))
      | Some w \<Rightarrow>
          (case w field_name of
             None \<Rightarrow>
               Inl (ValueError (''No field '' @ field_name @ '' in layer '' @ layer_name @ ''.''))
           | Some a \<Rightarrow> Inr (astype_float32 a)))"

section \<open>Layers\<close>

text \<open>
  A layer object as the Keras constructor receives it: its keyword arguments in the order
  of the source, the constant initializers given by the array they hold.
\<close>

datatype padding = Same | Valid

datatype 'a layer =
    Conv2D string nat nat nat padding 'a 'a
  | BatchNormalization string rat 'a 'a 'a 'a
  | Dense string nat 'a 'a
  | MaxPooling2D nat nat padding
  | AveragePooling2D nat nat padding string
  | Reshape "int list"

definition fully_connected ::
  "('a \<Rightarrow> 'a) \<Rightarrow> 'a weights \<Rightarrow> string \<Rightarrow> nat \<Rightarrow> error + 'a layer" where
  "fully_connected f W name units =
     andthen (get_weights f W name ''weights'') (\<lambda>kernel_initializer.
     andthen (get_weights f W name ''biases'') (\<lambda>bias_initializer.
     Inr (Dense name units kernel_initializer bias_initializer)))"

text \<open>
  Keras' \<open>Conv2D\<close> constructor refuses a kernel size or a stride of 0; the arguments,
  and so the two lookups, are evaluated before it runs.
\<close>

definition conv2d ::
  "('a \<Rightarrow> 'a) \<Rightarrow> 'a weights \<Rightarrow> string \<Rightarrow> nat \<Rightarrow> nat \<Rightarrow> nat \<Rightarrow> padding \<Rightarrow> error + 'a layer" where
  "conv2d f W name num_filters kernel_size stride padding =
     andthen (get_weights f W name ''weights'') (\<lambda>kernel_initializer.
     andthen (get_weights f W name ''biases'') (\<lambda>bias_initializer.
     if kernel_size = 0 \<or> stride = 0
     then Inl (KerasValueError ''kernel_size and strides cannot contain 0'')
     else Inr (Conv2D name num_filters kernel_size stride padding
                 kernel_initializer bias_initializer)))"

definition batch_norm :: "('a \<Rightarrow> 'a) \<Rightarrow> 'a weights \<Rightarrow> string \<Rightarrow> error + 'a layer" where
  "batch_norm f W name =
     andthen (get_weights f W name ''scale'') (\<lambda>gamma_initializer.
     andthen (get_weights f W name ''offset'') (\<lambda>beta_initializer.
     andthen (get_weights f W name ''mean'') (\<lambda>moving_mean_initializer.
     andthen (get_weights f W name ''variance'') (\<lambda>moving_variance_initializer.
     Inr (BatchNormalization name (1 / 100000) gamma_initializer beta_initializer
            moving_mean_initializer moving_variance_initializer)))))"

section \<open>Symbolic tensors and their shapes\<close>

text \<open>
  The functional API builds a graph: a symbolic tensor is the input placeholder or the
  result of applying a layer or a TensorFlow operation to earlier tensors. A shape lists
  the dimensions, the batch dimension first; \<open>None\<close> is a dimension not known yet.
\<close>

type_synonym shape = "nat option list"

datatype 'a tensor =
    Input "nat list" string
  | Pad "'a tensor" "(nat \<times> nat) list" string
  | Relu "'a tensor"
  | Softmax "'a tensor" string
  | Call "'a layer" "'a tensor"
  | Add "'a tensor" "'a tensor"

subsection \<open>The shape rules of Keras\<close>

text \<open>
  One spatial dimension under a sliding window of size \<open>k\<close> and stride \<open>s\<close>: with
  padding "same" it is \<open>ceil (n / s)\<close>, with "valid" it is \<open>floor ((n - k) / s) + 1\<close>, and
  an input smaller than the window is refused.
\<close>

definition window_dim :: "padding \<Rightarrow> nat \<Rightarrow> nat \<Rightarrow> nat option \<Rightarrow> error + nat option" where
  "window_dim p k s d =
     (case d of
        None \<Rightarrow> Inr None
      | Some n \<Rightarrow>
          (case p of
             Same \<Rightarrow> Inr (Some ((n + s - 1) div s))
           | Valid \<Rightarrow>
               if n < k then Inl (KerasValueError ''negative output dimension'')
               else Inr (Some ((n - k) div s + 1))))"

definition window_shape ::
  "padding \<Rightarrow> nat \<Rightarrow> nat \<Rightarrow> shape \<Rightarrow> error + (nat option \<times> nat option \<times> nat option \<times> nat option)" where
  "window_shape p k s shp =
     (case shp of
        [b, h, w, c] \<Rightarrow>
          andthen (window_dim p k s h) (\<lambda>h'.
          andthen (window_dim p k s w) (\<lambda>w'.
          Inr (b, h', w', c)))
      | _ \<Rightarrow> Inl (KerasValueError ''expected ndim=4''))"

fun all_known :: "shape \<Rightarrow> nat list option" where
  "all_known [] = Some []"
| "all_known (None # ds) = None"
| "all_known (Some n # ds) = map_option ((#) n) (all_known ds)"

text \<open>
  \<open>Reshape\<close>: the target shape leaves the batch dimension out and may hold one \<open>-1\<close>,
  which stands for whatever size is left over.
\<close>

definition reshape_shape :: "int list \<Rightarrow> shape \<Rightarrow> error + shape" where
  "reshape_shape target shp =
     (case shp of
        [] \<Rightarrow> Inl (KerasValueError ''no batch dimension'')
      | b # rest \<Rightarrow>
          (case all_known rest of
             None \<Rightarrow> Inr (b # map (\<lambda>d. if d = - 1 then None else Some (nat d)) target)
           | Some ns \<Rightarrow>
               (let input_size = int (prod_list ns);
                    known = prod_list (filter (\<lambda>d. d \<noteq> - 1) target);
                    unknowns = length (filter (\<lambda>d. d = - 1) target)
                in if 1 < unknowns
                   then Inl (KerasValueError ''Can only specify one unknown dimension'')
                   else if unknowns = 1
                   then (if known = 0 \<or> input_size mod known \<noteq> 0
                         then Inl (KerasValueError ''total size of new array must be unchanged'')
                         else Inr (b # map (\<lambda>d. Some (nat (if d = - 1 then input_size div known else d)))
                                          target))
                   else if input_size \<noteq> known
                   then Inl (KerasValueError ''total size of new array must be unchanged'')
                   else Inr (b # map (\<lambda>d. Some (nat d)) target))))"

fun compute_output_shape :: "'a layer \<Rightarrow> shape \<Rightarrow> error + shape" where
  "compute_output_shape (Conv2D name filters kernel_size strides p kernel_init bias_init) shp =
     andthen (window_shape p kernel_size strides shp) (\<lambda>(b, h, w, c).
       case c of
         None \<Rightarrow> Inl (KerasValueError ''The channel dimension of the inputs should be defined'')
       | Some _ \<Rightarrow> Inr [b, h, w, Some filters])"
| "compute_output_shape (BatchNormalization name eps gamma beta moving_mean moving_var) shp =
     (if shp = [] \<or> last shp = None
      then Inl (KerasValueError ''Axis -1 of input tensor should have a defined dimension'')
      else Inr shp)"
| "compute_output_shape (Dense name units kernel_init bias_init) shp =
     (if length shp < 2 \<or> last shp = None
      then Inl (KerasValueError ''The last dimension of the inputs to a Dense layer should be defined'')
      else Inr (butlast shp @ [Some units]))"
| "compute_output_shape (MaxPooling2D pool_size strides p) shp =
     (if pool_size = 0 \<or> strides = 0
      then Inl (KerasValueError ''pool_size and strides cannot contain 0'')
      else andthen (window_shape p pool_size strides shp) (\<lambda>(b, h, w, c). Inr [b, h, w, c]))"
| "compute_output_shape (AveragePooling2D pool_size strides p name) shp =
     (if pool_size = 0 \<or> strides = 0
      then Inl (KerasValueError ''pool_size and strides cannot contain 0'')
      else andthen (window_shape p pool_size strides shp) (\<lambda>(b, h, w, c). Inr [b, h, w, c]))"
| "compute_output_shape (Reshape target) shp = reshape_shape target shp"

text \<open>
  The merge layers (\<open>Add\<close>) accept operands that broadcast: per dimension, equal sizes or
  a size of 1 on either side. Anything else is refused when the layer is applied.
\<close>

definition broadcast_dim :: "nat option \<Rightarrow> nat option \<Rightarrow> error + nat option" where
  "broadcast_dim i j =
     (case i of
        None \<Rightarrow> Inr None
      | Some a \<Rightarrow>
          (case j of
             None \<Rightarrow> Inr None
           | Some b \<Rightarrow>
               if a = 1 then Inr (Some b)
               else if b = 1 then Inr (Some a)
               else if a \<noteq> b
               then Inl (KerasValueError ''Operands could not be broadcast together'')
               else Inr (Some a)))"

fun zip_dims :: "shape \<Rightarrow> shape \<Rightarrow> error + shape" where
  "zip_dims (i # is) (j # js) =
     andthen (broadcast_dim i j) (\<lambda>d.
     andthen (zip_dims is js) (\<lambda>ds.
     Inr (d # ds)))"
| "zip_dims _ _ = Inr []"

definition compute_elemwise_op_output_shape :: "shape \<Rightarrow> shape \<Rightarrow> error + shape" where
  "compute_elemwise_op_output_shape shape1 shape2 =
     (let l = (if length shape1 < length shape2 then shape2 else shape1);
          s = (if length shape1 < length shape2 then shape1 else shape2)
      in if s = [] then Inr l
         else andthen (zip_dims (drop (length l - length s) l) s) (\<lambda>t.
              Inr (take (length l - length s) l @ t)))"

definition merge_shape :: "shape \<Rightarrow> shape \<Rightarrow> error + shape" where
  "merge_shape sa sb =
     (case sa of
        [] \<Rightarrow> Inl (KerasValueError ''no batch dimension'')
      | ba # ra \<Rightarrow>
          (case sb of
             [] \<Rightarrow> Inl (KerasValueError ''no batch dimension'')
           | bb # rb \<Rightarrow>
               if ba \<noteq> None \<and> bb \<noteq> None \<and> ba \<noteq> bb
               then Inl (KerasValueError ''Can not merge tensors with different batch sizes'')
               else andthen (compute_elemwise_op_output_shape ra rb) (\<lambda>r.
                    Inr ((if ba = None then bb else ba) # r))))"

fun pad_dims :: "shape \<Rightarrow> (nat \<times> nat) list \<Rightarrow> shape" where
  "pad_dims (d # ds) ((lo, hi) # ps) = map_option (\<lambda>n. lo + n + hi) d # pad_dims ds ps"
| "pad_dims _ _ = []"

fun shape_of :: "'a tensor \<Rightarrow> error + shape" where
  "shape_of (Input dims name) = Inr (None # map Some dims)"
| "shape_of (Pad x paddings mode) =
     andthen (shape_of x) (\<lambda>s.
       if length paddings \<noteq> length s
       then Inl (KerasValueError ''paddings must have one row for each dimension'')
       else Inr (pad_dims s paddings))"
| "shape_of (Relu x) = shape_of x"
| "shape_of (Softmax x name) = shape_of x"
| "shape_of (Call l x) = andthen (shape_of x) (compute_output_shape l)"
| "shape_of (Add a b) =
     andthen (shape_of a) (\<lambda>sa.
     andthen (shape_of b) (\<lambda>sb.
     merge_shape sa sb))"

subsection \<open>Applying layers and operations\<close>

text \<open>
  Applying a layer or an operation to a symbolic tensor infers the shape of the result at
  once, and the error of an impossible shape is raised there, while the graph is built.
\<close>

definition symbolic :: "'a tensor \<Rightarrow> error + 'a tensor" where
  "symbolic t = (case shape_of t of Inl e \<Rightarrow> Inl e | Inr s \<Rightarrow> Inr t)"

definition call :: "'a layer \<Rightarrow> 'a tensor \<Rightarrow> error + 'a tensor" where
  "call l x = symbolic (Call l x)"

definition add :: "'a tensor \<Rightarrow> 'a tensor \<Rightarrow> error + 'a tensor" where
  "add a b = symbolic (Add a b)"

definition relu :: "'a tensor \<Rightarrow> error + 'a tensor" where
  "relu x = symbolic (Relu x)"

definition softmax :: "'a tensor \<Rightarrow> string \<Rightarrow> error + 'a tensor" where
  "softmax x name = symbolic (Softmax x name)"

definition pad :: "'a tensor \<Rightarrow> (nat \<times> nat) list \<Rightarrow> string \<Rightarrow> error + 'a tensor" where
  "pad x paddings mode = symbolic (Pad x paddings mode)"

section \<open>The residual blocks\<close>

definition conv_block ::
  "('a \<Rightarrow> 'a) \<Rightarrow> 'a weights \<Rightarrow> int \<Rightarrow> int \<Rightarrow> 'a tensor \<Rightarrow> nat \<times> nat \<times> nat \<Rightarrow> nat \<Rightarrow> nat
     \<Rightarrow> error + 'a tensor" where
  "conv_block f W stage block inputs nums_filters kernel_size stride =
     (case nums_filters of (num_filters_1, num_filters_2, num_filters_3) \<Rightarrow>
      let conv_name_base = ''conv_stage'' @ str_int stage @ ''_block'' @ str_int block @ ''_branch'';
          bn_name_base = ''bn_stage'' @ str_int stage @ ''_block'' @ str_int block @ ''_branch'';
          shortcut_name_post = ''_stage'' @ str_int stage @ ''_block'' @ str_int block @ ''_proj_shortcut''
      in
      andthen (conv2d f W (''conv'' @ shortcut_name_post) num_filters_3 1 stride Same) (\<lambda>l.
      andthen (call l inputs) (\<lambda>shortcut.
      andthen (batch_norm f W (''bn'' @ shortcut_name_post)) (\<lambda>l.
      andthen (call l shortcut) (\<lambda>shortcut.
      andthen (conv2d f W (conv_name_base @ ''2a'') num_filters_1 1 stride Same) (\<lambda>l.
      andthen (call l inputs) (\<lambda>x.
      andthen (batch_norm f W (bn_name_base @ ''2a'')) (\<lambda>l.
      andthen (call l x) (\<lambda>x.
      andthen (relu x) (\<lambda>x.
      andthen (conv2d f W (conv_name_base @ ''2b'') num_filters_2 kernel_size 1 Same) (\<lambda>l.
      andthen (call l x) (\<lambda>x.
      andthen (batch_norm f W (bn_name_base @ ''2b'')) (\<lambda>l.
      andthen (call l x) (\<lambda>x.
      andthen (relu x) (\<lambda>x.
      andthen (conv2d f W (conv_name_base @ ''2c'') num_filters_3 1 1 Same) (\<lambda>l.
      andthen (call l x) (\<lambda>x.
      andthen (batch_norm f W (bn_name_base @ ''2c'')) (\<lambda>l.
      andthen (call l x) (\<lambda>x.
      andthen (add x shortcut) (\<lambda>x.
      relu x))))))))))))))))))))"

definition identity_block ::
  "('a \<Rightarrow> 'a) \<Rightarrow> 'a weights \<Rightarrow> int \<Rightarrow> int \<Rightarrow> 'a tensor \<Rightarrow> nat \<times> nat \<times> nat \<Rightarrow> nat
     \<Rightarrow> error + 'a tensor" where
  "identity_block f W stage block inputs nums_filters kernel_size =
     (case nums_filters of (num_filters_1, num_filters_2, num_filters_3) \<Rightarrow>
      let conv_name_base = ''conv_stage'' @ str_int stage @ ''_block'' @ str_int block @ ''_branch'';
          bn_name_base = ''bn_stage'' @ str_int stage @ ''_block'' @ str_int block @ ''_branch''
      in
      andthen (conv2d f W (conv_name_base @ ''2a'') num_filters_1 1 1 Same) (\<lambda>l.
      andthen (call l inputs) (\<lambda>x.
      andthen (batch_norm f W (bn_name_base @ ''2a'')) (\<lambda>l.
      andthen (call l x) (\<lambda>x.
      andthen (relu x) (\<lambda>x.
      andthen (conv2d f W (conv_name_base @ ''2b'') num_filters_2 kernel_size 1 Same) (\<lambda>l.
      andthen (call l x) (\<lambda>x.
      andthen (batch_norm f W (bn_name_base @ ''2b'')) (\<lambda>l.
      andthen (call l x) (\<lambda>x.
      andthen (relu x) (\<lambda>x.
      andthen (conv2d f W (conv_name_base @ ''2c'') num_filters_3 1 1 Same) (\<lambda>l.
      andthen (call l x) (\<lambda>x.
      andthen (batch_norm f W (bn_name_base @ ''2c'')) (\<lambda>l.
      andthen (call l x) (\<lambda>x.
      andthen (add x inputs) (\<lambda>x.
      relu x))))))))))))))))"

section \<open>The network\<close>

record 'a model =
  model_inputs :: "'a tensor"
  model_outputs :: "'a tensor"

definition default_input_shape :: "nat \<times> nat \<times> nat" where
  "default_input_shape = (224, 224, 3)"

definition make_open_nsfw_model_and_load_weights ::
  "('a \<Rightarrow> 'a) \<Rightarrow> 'a weights \<Rightarrow> nat \<times> nat \<times> nat \<Rightarrow> error + 'a model" where
  "make_open_nsfw_model_and_load_weights f W input_shape =
     (case input_shape of (height, width, channels) \<Rightarrow>
      andthen (symbolic (Input [height, width, channels] ''input'')) (\<lambda>image_input.
      andthen (pad image_input [(0, 0), (3, 3), (3, 3), (0, 0)] ''CONSTANT'') (\<lambda>x.
      andthen (conv2d f W ''conv_1'' 64 7 2 Valid) (\<lambda>l.
      andthen (call l x) (\<lambda>x.
      andthen (batch_norm f W ''bn_1'') (\<lambda>l.
      andthen (call l x) (\<lambda>x.
      andthen (relu x) (\<lambda>x.
      andthen (call (MaxPooling2D 3 2 Same) x) (\<lambda>x.
      andthen (conv_block f W 0 0 x (32, 32, 128) 3 1) (\<lambda>x.
      andthen (identity_block f W 0 1 x (32, 32, 128) 3) (\<lambda>x.
      andthen (identity_block f W 0 2 x (32, 32, 128) 3) (\<lambda>x.
      andthen (conv_block f W 1 0 x (64, 64, 256) 3 2) (\<lambda>x.
      andthen (identity_block f W 1 1 x (64, 64, 256) 3) (\<lambda>x.
      andthen (identity_block f W 1 2 x (64, 64, 256) 3) (\<lambda>x.
      andthen (identity_block f W 1 3 x (64, 64, 256) 3) (\<lambda>x.
      andthen (conv_block f W 2 0 x (128, 128, 512) 3 2) (\<lambda>x.
      andthen (identity_block f W 2 1 x (128, 128, 512) 3) (\<lambda>x.
      andthen (identity_block f W 2 2 x (128, 128, 512) 3) (\<lambda>x.
      andthen (identity_block f W 2 3 x (128, 128, 512) 3) (\<lambda>x.
      andthen (identity_block f W 2 4 x (128, 128, 512) 3) (\<lambda>x.
      andthen (identity_block f W 2 5 x (128, 128, 512) 3) (\<lambda>x.
      andthen (conv_block f W 3 0 x (256, 256, 1024) 3 2) (\<lambda>x.
      andthen (identity_block f W 3 1 x (256, 256, 1024) 3) (\<lambda>x.
      andthen (identity_block f W 3 2 x (256, 256, 1024) 3) (\<lambda>x.
      andthen (call (AveragePooling2D 7 1 Valid ''pool'') x) (\<lambda>x.
      andthen (call (Reshape [- 1, 1024]) x) (\<lambda>x.
      andthen (fully_connected f W ''fc_nsfw'' 2) (\<lambda>l.
      andthen (call l x) (\<lambda>logits.
      andthen (softmax logits ''predictions'') (\<lambda>output.
      Inr \<lparr>model_inputs = image_input, model_outputs = output\<rparr>))))))))))))))))))))))))))))))"

definition main :: "('a \<Rightarrow> 'a) \<Rightarrow> 'a weights \<Rightarrow> error + unit" where
  "main f W =
     andthen (make_open_nsfw_model_and_load_weights f W default_input_shape) (\<lambda>model. Inr ())"

section \<open>Archives and inputs used in the examples\<close>

definition archive_bn_1 :: "nat weights" where
  "archive_bn_1 =
     [''bn_1'' \<mapsto> [''scale'' \<mapsto> 1, ''offset'' \<mapsto> 2, ''mean'' \<mapsto> 3, ''variance'' \<mapsto> 4]]"


section \<open>What a normalization layer computes\<close>

text \<open>
  Keras documents the inference mode of \<open>BatchNormalization\<close> as
  \<open>gamma * (x - moving_mean) / sqrt (moving_var + epsilon) + beta\<close>, channel by channel.
  The function below is that formula over the reals; \<open>entry a c\<close> reads channel \<open>c\<close> of
  the array \<open>a\<close>. Rounding is not modelled.
\<close>

definition batch_norm_inference ::
  "('a \<Rightarrow> nat \<Rightarrow> real) \<Rightarrow> 'a layer \<Rightarrow> nat \<Rightarrow> real \<Rightarrow> real option" where
  "batch_norm_inference entry l c x =
     (case l of
        BatchNormalization name epsilon gamma beta moving_mean moving_var \<Rightarrow>
          Some (entry gamma c * (x - entry moving_mean c)
                  / sqrt (entry moving_var c + of_rat epsilon)
                + entry beta c)
      | _ \<Rightarrow> None)"

section \<open>The two paths of a residual block\<close>

fun main_path :: "'a tensor \<Rightarrow> 'a tensor option" where
  "main_path (Relu (Add m s)) = Some m"
| "main_path _ = None"

fun shortcut_path :: "'a tensor \<Rightarrow> 'a tensor option" where
  "shortcut_path (Relu (Add m s)) = Some s"
| "shortcut_path _ = None"

section \<open>An archive that answers every key\<close>

text \<open>
  In \<open>tagged_archive\<close> the array stored under a layer and a field is the pair of the two
  names, so that a graph built from it shows where each initializer was read.
\<close>

definition tagged_archive :: "(string \<times> string) weights" where
  "tagged_archive = (\<lambda>l. Some (\<lambda>fld. Some (l, fld)))"

definition tagged_conv :: "string \<Rightarrow> nat \<Rightarrow> nat \<Rightarrow> nat \<Rightarrow> padding \<Rightarrow> (string \<times> string) layer" where
  "tagged_conv name n k s p = Conv2D name n k s p (name, ''weights'') (name, ''biases'')"

definition tagged_bn :: "string \<Rightarrow> (string \<times> string) layer" where
  "tagged_bn name =
     BatchNormalization name (1 / 100000)
       (name, ''scale'') (name, ''offset'') (name, ''mean'') (name, ''variance'')"

definition example_main_path ::
  "string \<Rightarrow> nat \<Rightarrow> (string \<times> string) tensor \<Rightarrow> (string \<times> string) tensor" where
  "example_main_path block c3 x =
     Call (tagged_bn (''bn_stage0_block'' @ block @ ''_branch2c''))
       (Call (tagged_conv (''conv_stage0_block'' @ block @ ''_branch2c'') c3 1 1 Same)
         (Relu
           (Call (tagged_bn (''bn_stage0_block'' @ block @ ''_branch2b''))
             (Call (tagged_conv (''conv_stage0_block'' @ block @ ''_branch2b'') 32 3 1 Same)
               (Relu
                 (Call (tagged_bn (''bn_stage0_block'' @ block @ ''_branch2a''))
                   (Call (tagged_conv (''conv_stage0_block'' @ block @ ''_branch2a'') 32 1 1 Same)
                     x)))))))"

definition example_shortcut :: "(string \<times> string) tensor \<Rightarrow> (string \<times> string) tensor" where
  "example_shortcut x =
     Call (tagged_bn ''bn_stage0_block0_proj_shortcut'')
       (Call (tagged_conv ''conv_stage0_block0_proj_shortcut'' 128 1 1 Same) x)"

section \<open>Sizes along the network\<close>

text \<open>
  With padding "same" a stride \<open>s\<close> turns a known size \<open>n\<close> into \<open>ceil (n / s)\<close>.
  \<open>stem_size\<close> is a spatial size after the stem (padding by 3 on each side, the 7x7
  convolution of stride 2 without padding, the max-pool of stride 2), and \<open>final_size\<close>
  the size after the four stages, whose strides are 1, 2, 2 and 2.
\<close>

definition same_dim :: "nat \<Rightarrow> nat option \<Rightarrow> nat option" where
  "same_dim s d = map_option (\<lambda>n. (n + s - 1) div s) d"

definition stem_size :: "nat \<Rightarrow> nat" where
  "stem_size n = ((3 + n + 3 - 7) div 2 + 1 + 2 - 1) div 2"

definition final_size :: "nat \<Rightarrow> nat" where
  "final_size n = (((stem_size n + 2 - 1) div 2 + 2 - 1) div 2 + 2 - 1) div 2"

section \<open>The topology, as the specification words it\<close>

text \<open>
  The specification describes the network by a schedule: a stem, four stages, each a
  projection block followed by a number of identity blocks, and a head. The definitions
  of this section build the graph from that description, with the parameters left out
  (every initializer is \<open>()\<close>); they are compared with what the source builds.
\<close>

definition norm_spec :: "string \<Rightarrow> unit layer" where
  "norm_spec name = BatchNormalization name (1 / 100000) () () () ()"

definition conv_spec :: "string \<Rightarrow> nat \<Rightarrow> nat \<Rightarrow> nat \<Rightarrow> padding \<Rightarrow> unit layer" where
  "conv_spec name filters k s p = Conv2D name filters k s p () ()"

definition block_name :: "string \<Rightarrow> int \<Rightarrow> int \<Rightarrow> string \<Rightarrow> string" where
  "block_name kind stage block branch =
     kind @ ''_stage'' @ str_int stage @ ''_block'' @ str_int block @ branch"

definition bottleneck_spec ::
  "int \<Rightarrow> int \<Rightarrow> nat \<times> nat \<times> nat \<Rightarrow> nat \<Rightarrow> nat \<Rightarrow> unit tensor \<Rightarrow> unit tensor" where
  "bottleneck_spec stage block widths k s x =
     (case widths of (c1, c2, c3) \<Rightarrow>
        Call (norm_spec (block_name ''bn'' stage block ''_branch2c''))
          (Call (conv_spec (block_name ''conv'' stage block ''_branch2c'') c3 1 1 Same)
            (Relu
              (Call (norm_spec (block_name ''bn'' stage block ''_branch2b''))
                (Call (conv_spec (block_name ''conv'' stage block ''_branch2b'') c2 k 1 Same)
                  (Relu
                    (Call (norm_spec (block_name ''bn'' stage block ''_branch2a''))
                      (Call (conv_spec (block_name ''conv'' stage block ''_branch2a'') c1 1 s Same)
                        x))))))))"

definition projection_block_spec ::
  "int \<Rightarrow> int \<Rightarrow> nat \<times> nat \<times> nat \<Rightarrow> nat \<Rightarrow> nat \<Rightarrow> unit tensor \<Rightarrow> unit tensor" where
  "projection_block_spec stage block widths k s x =
     (case widths of (c1, c2, c3) \<Rightarrow>
        Relu (Add (bottleneck_spec stage block widths k s x)
               (Call (norm_spec (block_name ''bn'' stage block ''_proj_shortcut''))
                 (Call (conv_spec (block_name ''conv'' stage block ''_proj_shortcut'') c3 1 s Same)
                   x))))"

definition identity_block_spec ::
  "int \<Rightarrow> int \<Rightarrow> nat \<times> nat \<times> nat \<Rightarrow> nat \<Rightarrow> unit tensor \<Rightarrow> unit tensor" where
  "identity_block_spec stage block widths k x =
     Relu (Add (bottleneck_spec stage block widths k 1 x) x)"

fun identity_blocks_spec ::
  "int \<Rightarrow> nat \<times> nat \<times> nat \<Rightarrow> int \<Rightarrow> nat \<Rightarrow> unit tensor \<Rightarrow> unit tensor" where
  "identity_blocks_spec stage widths block 0 x = x"
| "identity_blocks_spec stage widths block (Suc n) x =
     identity_blocks_spec stage widths (block + 1) n (identity_block_spec stage block widths 3 x)"

text \<open>A stage: its index, its filter widths, the stride of its projection block and the
  number of identity blocks that follow it.\<close>

definition stage_spec :: "int \<times> (nat \<times> nat \<times> nat) \<times> nat \<times> nat \<Rightarrow> unit tensor \<Rightarrow> unit tensor" where
  "stage_spec st x =
     (case st of (stage, widths, stride, identity_blocks) \<Rightarrow>
        identity_blocks_spec stage widths 1 identity_blocks
          (projection_block_spec stage 0 widths 3 stride x))"

definition stage_schedule :: "(int \<times> (nat \<times> nat \<times> nat) \<times> nat \<times> nat) list" where
  "stage_schedule =
     [(0, (32, 32, 128), 1, 2),
      (1, (64, 64, 256), 2, 3),
      (2, (128, 128, 512), 2, 5),
      (3, (256, 256, 1024), 2, 2)]"

definition stem_spec :: "unit tensor \<Rightarrow> unit tensor" where
  "stem_spec x =
     Call (MaxPooling2D 3 2 Same)
       (Relu
         (Call (norm_spec ''bn_1'')
           (Call (conv_spec ''conv_1'' 64 7 2 Valid)
             (Pad x [(0, 0), (3, 3), (3, 3), (0, 0)] ''CONSTANT''))))"

definition head_spec :: "unit tensor \<Rightarrow> unit tensor" where
  "head_spec x =
     Softmax
       (Call (Dense ''fc_nsfw'' 2 () ())
         (Call (Reshape [- 1, 1024])
           (Call (AveragePooling2D 7 1 Valid ''pool'') x)))
       ''predictions''"

definition open_nsfw_topology :: "nat list \<Rightarrow> unit tensor" where
  "open_nsfw_topology dims =
     head_spec (fold stage_spec stage_schedule (stem_spec (Input dims ''input'')))"

definition erase :: "'a tensor \<Rightarrow> unit tensor" where
  "erase t = map_tensor (\<lambda>a. ()) t"


section \<open>Properties of the weight store\<close>

lemma andthen_simps [simp]:
  "andthen (Inl e) k = Inl e"
  "andthen (Inr a) k = k a"
  by (simp_all add: andthen_def)

lemma andthen_eq_Inr: "andthen r k = Inr v \<longleftrightarrow> (\<exists>a. r = Inr a \<and> k a = Inr v)"
  by (cases r) simp_all

lemma get_weights_Inr:
  "get_weights f W l fld = Inr v \<longleftrightarrow> (\<exists>w a. W l = Some w \<and> w fld = Some a \<and> v = f a)"
  by (auto simp: get_weights_def split: option.splits)

text \<open>
  Claim C2, as the specification states it, asks that a failed lookup names the missing
  layer and the missing field. When the layer is absent the message names the layer
  only: looking up the field \<open>scale\<close> of the layer \<open>bn_1\<close> in an empty archive gives a
  message in which \<open>scale\<close> does not occur. The error is a \<open>ValueError\<close>.
\<close>

theorem get_weights_missing_layer_counterexample:
  "get_weights id Map.empty ''bn_1'' ''scale'' = Inl (ValueError ''No weights found for layer bn_1.'')
   \<and> \<not> sublist ''scale'' ''No weights found for layer bn_1.''"
  by (simp add: get_weights_def) code_simp

text \<open>
  Claim C2, amended: when both keys are present the lookup returns the stored array
  converted to float32; when the layer is absent it fails with a \<open>ValueError\<close> whose
  message names the layer; when the layer is present and the field absent it fails with
  a \<open>ValueError\<close> whose message names the field and the layer; and it returns a value
  only when both keys are present, never a default.
\<close>

theorem get_weights_lookup:
  "(W l = Some w \<and> w fld = Some a \<longrightarrow> get_weights f W l fld = Inr (f a))
   \<and> (W l = None \<longrightarrow>
        get_weights f W l fld = Inl (ValueError (''No weights found for layer '' @ l @ ''.'')))
   \<and> (W l = Some w \<and> w fld = None \<longrightarrow>
        get_weights f W l fld = Inl (ValueError (''No field '' @ fld @ '' in layer '' @ l @ ''.''))
        \<and> sublist fld (''No field '' @ fld @ '' in layer '' @ l @ ''.'')
        \<and> sublist l (''No field '' @ fld @ '' in layer '' @ l @ ''.''))
   \<and> sublist l (''No weights found for layer '' @ l @ ''.'')
   \<and> (get_weights f W l fld = Inr v \<longleftrightarrow> (\<exists>w' a'. W l = Some w' \<and> w' fld = Some a' \<and> v = f a'))"
proof -
  have 1: "sublist fld (''No field '' @ fld @ '' in layer '' @ l @ ''.'')"
    unfolding sublist_def by blast
  have 2: "sublist l (''No field '' @ fld @ '' in layer '' @ l @ ''.'')"
    unfolding sublist_def
    by (rule exI [of _ "''No field '' @ fld @ '' in layer ''"], rule exI [of _ "''.''"]) simp
  have 3: "sublist l (''No weights found for layer '' @ l @ ''.'')"
    unfolding sublist_def by blast
  have 4: "W l = Some w \<and> w fld = Some a \<longrightarrow> get_weights f W l fld = Inr (f a)"
    by (simp add: get_weights_def)
  have 5: "W l = None \<longrightarrow>
        get_weights f W l fld = Inl (ValueError (''No weights found for layer '' @ l @ ''.''))"
    by (simp add: get_weights_def)
  have 6: "W l = Some w \<and> w fld = None \<longrightarrow>
        get_weights f W l fld = Inl (ValueError (''No field '' @ fld @ '' in layer '' @ l @ ''.''))"
    by (simp add: get_weights_def)
  show ?thesis using 1 2 3 4 5 6 get_weights_Inr [of f W l fld v] by blast
qed

theorem get_weights_lookup_witness:
  "get_weights id archive_bn_1 ''bn_1'' ''scale'' = Inr 1
   \<and> get_weights id archive_bn_1 ''conv_1'' ''scale''
       = Inl (ValueError ''No weights found for layer conv_1.'')
   \<and> get_weights id archive_bn_1 ''bn_1'' ''weights''
       = Inl (ValueError ''No field weights in layer bn_1.'')"
  using get_weights_lookup [of archive_bn_1 "''bn_1''"
      "[''scale'' \<mapsto> 1, ''offset'' \<mapsto> 2, ''mean'' \<mapsto> 3, ''variance'' \<mapsto> 4]" "''scale''" 1 id]
    get_weights_lookup [of archive_bn_1 "''conv_1''" _ "''scale''" _ id]
    get_weights_lookup [of archive_bn_1 "''bn_1''"
      "[''scale'' \<mapsto> 1, ''offset'' \<mapsto> 2, ''mean'' \<mapsto> 3, ''variance'' \<mapsto> 4]" "''weights''" _ id]
  by (simp add: archive_bn_1_def)

section \<open>Properties of the layer factory\<close>



lemma batch_norm_Inr:
  "batch_norm f W name = Inr l \<longleftrightarrow>
     (\<exists>g b m v.
        get_weights f W name ''scale'' = Inr g
      \<and> get_weights f W name ''offset'' = Inr b
      \<and> get_weights f W name ''mean'' = Inr m
      \<and> get_weights f W name ''variance'' = Inr v
      \<and> l = BatchNormalization name (1 / 100000) g b m v)"
  unfolding batch_norm_def andthen_eq_Inr by auto

text \<open>
  Claim C4: a normalization layer built under a name has epsilon \<open>1e-05\<close>; its four
  parameters are the results of the lookups of \<open>scale\<close>, \<open>offset\<close>, \<open>mean\<close> and
  \<open>variance\<close> under that name, and no other entry of the archive matters (any archive
  that answers these four lookups alike builds the same layer); and on every channel the
  layer computes \<open>(x - mean) / sqrt (variance + eps) * scale + offset\<close>.
\<close>

theorem batch_norm_parameters:
  assumes "batch_norm f W name = Inr l"
  shows "\<exists>scale offset mean variance.
        get_weights f W name ''scale'' = Inr scale
      \<and> get_weights f W name ''offset'' = Inr offset
      \<and> get_weights f W name ''mean'' = Inr mean
      \<and> get_weights f W name ''variance'' = Inr variance
      \<and> l = BatchNormalization name (1 / 100000) scale offset mean variance
      \<and> (\<forall>entry c x. batch_norm_inference entry l c x =
             Some ((x - entry mean c) / sqrt (entry variance c + 1 / 100000) * entry scale c
                   + entry offset c))
      \<and> (\<forall>W'. get_weights f W' name ''scale'' = Inr scale
             \<and> get_weights f W' name ''offset'' = Inr offset
             \<and> get_weights f W' name ''mean'' = Inr mean
             \<and> get_weights f W' name ''variance'' = Inr variance
             \<longrightarrow> batch_norm f W' name = Inr l)"
proof -
  from assms obtain g b m v where
    g: "get_weights f W name ''scale'' = Inr g" and
    b: "get_weights f W name ''offset'' = Inr b" and
    m: "get_weights f W name ''mean'' = Inr m" and
    v: "get_weights f W name ''variance'' = Inr v" and
    l: "l = BatchNormalization name (1 / 100000) g b m v"
    unfolding batch_norm_Inr by blast
  have formula: "\<forall>entry c x. batch_norm_inference entry l c x =
             Some ((x - entry m c) / sqrt (entry v c + 1 / 100000) * entry g c + entry b c)"
    by (simp add: l batch_norm_inference_def of_rat_divide)
  have only: "\<forall>W'. get_weights f W' name ''scale'' = Inr g
             \<and> get_weights f W' name ''offset'' = Inr b
             \<and> get_weights f W' name ''mean'' = Inr m
             \<and> get_weights f W' name ''variance'' = Inr v
             \<longrightarrow> batch_norm f W' name = Inr l"
    using l by (simp add: batch_norm_Inr)
  from g b m v l formula only show ?thesis by blast
qed

theorem batch_norm_parameters_witness:
  "batch_norm id archive_bn_1 ''bn_1'' = Inr (BatchNormalization ''bn_1'' (1 / 100000) 1 2 3 4)
   \<and> batch_norm_inference (\<lambda>a c. real a) (BatchNormalization ''bn_1'' (1 / 100000) 1 2 3 4) 0 7
       = Some ((7 - 3) / sqrt (4 + 1 / 100000) * 1 + 2)"
proof -
  have b: "batch_norm id archive_bn_1 ''bn_1''
           = Inr (BatchNormalization ''bn_1'' (1 / 100000) 1 2 3 4)"
    by (simp add: batch_norm_def get_weights_def archive_bn_1_def)
  have g: "get_weights id archive_bn_1 ''bn_1'' ''scale'' = Inr 1"
     "get_weights id archive_bn_1 ''bn_1'' ''offset'' = Inr 2"
     "get_weights id archive_bn_1 ''bn_1'' ''mean'' = Inr 3"
     "get_weights id archive_bn_1 ''bn_1'' ''variance'' = Inr 4"
    by (simp_all add: get_weights_def archive_bn_1_def)
  from batch_norm_parameters [OF b] g
  have "batch_norm_inference (\<lambda>a c. real a) (BatchNormalization ''bn_1'' (1 / 100000) 1 2 3 4) 0 7
       = Some ((7 - real 3) / sqrt (real 4 + 1 / 100000) * real 1 + real 2)"
    by auto
  with b show ?thesis by simp
qed

lemma conv2d_Inr:
  "conv2d f W name num_filters kernel_size stride p = Inr l \<longleftrightarrow>
     (\<exists>kw bw.
        get_weights f W name ''weights'' = Inr kw
      \<and> get_weights f W name ''biases'' = Inr bw
      \<and> kernel_size \<noteq> 0 \<and> stride \<noteq> 0
      \<and> l = Conv2D name num_filters kernel_size stride p kw bw)"
  unfolding conv2d_def andthen_eq_Inr by auto

section \<open>Properties of the residual blocks\<close>

lemma symbolic_Inr: "symbolic t = Inr t' \<longleftrightarrow> (t' = t \<and> (\<exists>s. shape_of t = Inr s))"
  by (auto simp: symbolic_def split: sum.splits)

lemma call_Inr: "call l x = Inr t \<longleftrightarrow> (t = Call l x \<and> (\<exists>s. shape_of (Call l x) = Inr s))"
  by (simp add: call_def symbolic_Inr)

lemma add_Inr: "add a b = Inr t \<longleftrightarrow> (t = Add a b \<and> (\<exists>s. shape_of (Add a b) = Inr s))"
  by (simp add: add_def symbolic_Inr)

lemma relu_Inr: "relu x = Inr t \<longleftrightarrow> (t = Relu x \<and> (\<exists>s. shape_of (Relu x) = Inr s))"
  by (simp add: relu_def symbolic_Inr)

lemma not_isl_Inr: "\<not> isl r \<Longrightarrow> \<exists>v. r = Inr v"
  by (cases r) simp_all

lemma conv_block_layers:
  assumes "conv_block f W stage block inputs (c1, c2, c3) k s = Inr out"
  shows "\<exists>conv_s bn_s conv_a bn_a conv_b bn_b conv_c bn_c.
      conv2d f W (''conv_stage'' @ str_int stage @ ''_block'' @ str_int block @ ''_proj_shortcut'')
        c3 1 s Same = Inr conv_s
    \<and> batch_norm f W (''bn_stage'' @ str_int stage @ ''_block'' @ str_int block @ ''_proj_shortcut'')
        = Inr bn_s
    \<and> conv2d f W (''conv_stage'' @ str_int stage @ ''_block'' @ str_int block @ ''_branch2a'')
        c1 1 s Same = Inr conv_a
    \<and> batch_norm f W (''bn_stage'' @ str_int stage @ ''_block'' @ str_int block @ ''_branch2a'')
        = Inr bn_a
    \<and> conv2d f W (''conv_stage'' @ str_int stage @ ''_block'' @ str_int block @ ''_branch2b'')
        c2 k 1 Same = Inr conv_b
    \<and> batch_norm f W (''bn_stage'' @ str_int stage @ ''_block'' @ str_int block @ ''_branch2b'')
        = Inr bn_b
    \<and> conv2d f W (''conv_stage'' @ str_int stage @ ''_block'' @ str_int block @ ''_branch2c'')
        c3 1 1 Same = Inr conv_c
    \<and> batch_norm f W (''bn_stage'' @ str_int stage @ ''_block'' @ str_int block @ ''_branch2c'')
        = Inr bn_c
    \<and> out = Relu (Add
               (Call bn_c (Call conv_c
                 (Relu (Call bn_b (Call conv_b
                   (Relu (Call bn_a (Call conv_a inputs))))))))
               (Call bn_s (Call conv_s inputs)))"
  using assms unfolding conv_block_def
  by (simp add: andthen_eq_Inr Let_def call_Inr add_Inr relu_Inr) blast

lemma identity_block_layers:
  assumes "identity_block f W stage block inputs (c1, c2, c3) k = Inr out"
  shows "\<exists>conv_a bn_a conv_b bn_b conv_c bn_c.
      conv2d f W (''conv_stage'' @ str_int stage @ ''_block'' @ str_int block @ ''_branch2a'')
        c1 1 1 Same = Inr conv_a
    \<and> batch_norm f W (''bn_stage'' @ str_int stage @ ''_block'' @ str_int block @ ''_branch2a'')
        = Inr bn_a
    \<and> conv2d f W (''conv_stage'' @ str_int stage @ ''_block'' @ str_int block @ ''_branch2b'')
        c2 k 1 Same = Inr conv_b
    \<and> batch_norm f W (''bn_stage'' @ str_int stage @ ''_block'' @ str_int block @ ''_branch2b'')
        = Inr bn_b
    \<and> conv2d f W (''conv_stage'' @ str_int stage @ ''_block'' @ str_int block @ ''_branch2c'')
        c3 1 1 Same = Inr conv_c
    \<and> batch_norm f W (''bn_stage'' @ str_int stage @ ''_block'' @ str_int block @ ''_branch2c'')
        = Inr bn_c
    \<and> out = Relu (Add
               (Call bn_c (Call conv_c
                 (Relu (Call bn_b (Call conv_b
                   (Relu (Call bn_a (Call conv_a inputs))))))))
               inputs)"
  using assms unfolding identity_block_def
  by (simp add: andthen_eq_Inr Let_def call_Inr add_Inr relu_Inr) blast

lemmas block_eval =
  Let_def conv2d_def batch_norm_def get_weights_def tagged_archive_def tagged_conv_def
  tagged_bn_def call_def relu_def add_def symbolic_def str_int_def digit_char_def
  window_shape_def window_dim_def merge_shape_def compute_elemwise_op_output_shape_def
  broadcast_dim_def

text \<open>
  Claim C5: a projection block with filter widths \<open>(c1, c2, c3)\<close>, kernel size \<open>k\<close> and
  stride \<open>s\<close> returns \<open>relu (main + shortcut)\<close>. The shortcut is the normalization of a
  1x1 convolution with \<open>c3\<close> filters and stride \<open>s\<close> of the block input; the main path is
  a 1x1 convolution (\<open>c1\<close>, stride \<open>s\<close>), normalization, relu, a \<open>k\<close>x\<open>k\<close> convolution
  (\<open>c2\<close>, stride 1), normalization, relu, a 1x1 convolution (\<open>c3\<close>, stride 1) and
  normalization, starting from the block input. Each layer is the one the factory builds
  under the name of its stage, block and branch.
\<close>

theorem conv_block_structure:
  assumes "conv_block f W stage block inputs (c1, c2, c3) k s = Inr out"
  shows "\<exists>conv_s bn_s conv_a bn_a conv_b bn_b conv_c bn_c main shortcut.
      conv2d f W (''conv_stage'' @ str_int stage @ ''_block'' @ str_int block @ ''_proj_shortcut'')
        c3 1 s Same = Inr conv_s
    \<and> batch_norm f W (''bn_stage'' @ str_int stage @ ''_block'' @ str_int block @ ''_proj_shortcut'')
        = Inr bn_s
    \<and> conv2d f W (''conv_stage'' @ str_int stage @ ''_block'' @ str_int block @ ''_branch2a'')
        c1 1 s Same = Inr conv_a
    \<and> batch_norm f W (''bn_stage'' @ str_int stage @ ''_block'' @ str_int block @ ''_branch2a'')
        = Inr bn_a
    \<and> conv2d f W (''conv_stage'' @ str_int stage @ ''_block'' @ str_int block @ ''_branch2b'')
        c2 k 1 Same = Inr conv_b
    \<and> batch_norm f W (''bn_stage'' @ str_int stage @ ''_block'' @ str_int block @ ''_branch2b'')
        = Inr bn_b
    \<and> conv2d f W (''conv_stage'' @ str_int stage @ ''_block'' @ str_int block @ ''_branch2c'')
        c3 1 1 Same = Inr conv_c
    \<and> batch_norm f W (''bn_stage'' @ str_int stage @ ''_block'' @ str_int block @ ''_branch2c'')
        = Inr bn_c
    \<and> shortcut = Call bn_s (Call conv_s inputs)
    \<and> main = Call bn_c (Call conv_c
                 (Relu (Call bn_b (Call conv_b
                   (Relu (Call bn_a (Call conv_a inputs)))))))
    \<and> out = Relu (Add main shortcut)
    \<and> main_path out = Some main \<and> shortcut_path out = Some shortcut"
  using conv_block_layers [OF assms] by auto

theorem conv_block_structure_witness:
  "conv_block id tagged_archive 0 0 (Input [56, 56, 64] ''x'') (32, 32, 128) 3 1
     = Inr (Relu (Add (example_main_path ''0'' 128 (Input [56, 56, 64] ''x''))
                      (example_shortcut (Input [56, 56, 64] ''x''))))
   \<and> main_path (Relu (Add (example_main_path ''0'' 128 (Input [56, 56, 64] ''x''))
                      (example_shortcut (Input [56, 56, 64] ''x''))))
     = Some (example_main_path ''0'' 128 (Input [56, 56, 64] ''x''))"
proof -
  have h: "conv_block id tagged_archive 0 0 (Input [56, 56, 64] ''x'') (32, 32, 128) 3 1
     = Inr (Relu (Add (example_main_path ''0'' 128 (Input [56, 56, 64] ''x''))
                      (example_shortcut (Input [56, 56, 64] ''x''))))"
    by (simp add: conv_block_def example_main_path_def example_shortcut_def block_eval)
  from conv_block_structure [OF h] h show ?thesis by auto
qed

lemma identity_block_ignores_shortcut_entries:
  "identity_block f
     (W(''conv_stage'' @ str_int stage @ ''_block'' @ str_int block @ ''_proj_shortcut'' := None,
        ''bn_stage'' @ str_int stage @ ''_block'' @ str_int block @ ''_proj_shortcut'' := None))
     stage block inputs (c1, c2, c3) k
   = identity_block f W stage block inputs (c1, c2, c3) k"
  by (simp add: identity_block_def conv2d_def batch_norm_def get_weights_def Let_def)

text \<open>
  Claim C6: an identity block returns \<open>relu (main + input)\<close>: the shortcut is the block
  input itself, with no layer on it. Its main path has the layer kinds, kernel sizes,
  filter widths and names of the projection block's main path, every stride being 1: it
  is the very main path that the projection block with stride 1 builds for the same
  stage, block, input and widths. The block reads no parameter for the shortcut: taking
  the entries of the projection shortcut out of the archive does not change its result.
\<close>

theorem identity_block_structure:
  assumes "identity_block f W stage block inputs (c1, c2, c3) k = Inr out"
  shows "\<exists>conv_a bn_a conv_b bn_b conv_c bn_c.
      conv2d f W (''conv_stage'' @ str_int stage @ ''_block'' @ str_int block @ ''_branch2a'')
        c1 1 1 Same = Inr conv_a
    \<and> batch_norm f W (''bn_stage'' @ str_int stage @ ''_block'' @ str_int block @ ''_branch2a'')
        = Inr bn_a
    \<and> conv2d f W (''conv_stage'' @ str_int stage @ ''_block'' @ str_int block @ ''_branch2b'')
        c2 k 1 Same = Inr conv_b
    \<and> batch_norm f W (''bn_stage'' @ str_int stage @ ''_block'' @ str_int block @ ''_branch2b'')
        = Inr bn_b
    \<and> conv2d f W (''conv_stage'' @ str_int stage @ ''_block'' @ str_int block @ ''_branch2c'')
        c3 1 1 Same = Inr conv_c
    \<and> batch_norm f W (''bn_stage'' @ str_int stage @ ''_block'' @ str_int block @ ''_branch2c'')
        = Inr bn_c
    \<and> out = Relu (Add
               (Call bn_c (Call conv_c
                 (Relu (Call bn_b (Call conv_b
                   (Relu (Call bn_a (Call conv_a inputs))))))))
               inputs)
    \<and> shortcut_path out = Some inputs
    \<and> (\<forall>out'. conv_block f W stage block inputs (c1, c2, c3) k 1 = Inr out'
          \<longrightarrow> main_path out' = main_path out)
    \<and> identity_block f
         (W(''conv_stage'' @ str_int stage @ ''_block'' @ str_int block @ ''_proj_shortcut'' := None,
            ''bn_stage'' @ str_int stage @ ''_block'' @ str_int block @ ''_proj_shortcut'' := None))
         stage block inputs (c1, c2, c3) k = Inr out"
proof -
  from identity_block_layers [OF assms] obtain conv_a bn_a conv_b bn_b conv_c bn_c where
    l: "conv2d f W (''conv_stage'' @ str_int stage @ ''_block'' @ str_int block @ ''_branch2a'')
        c1 1 1 Same = Inr conv_a"
    "batch_norm f W (''bn_stage'' @ str_int stage @ ''_block'' @ str_int block @ ''_branch2a'')
        = Inr bn_a"
    "conv2d f W (''conv_stage'' @ str_int stage @ ''_block'' @ str_int block @ ''_branch2b'')
        c2 k 1 Same = Inr conv_b"
    "batch_norm f W (''bn_stage'' @ str_int stage @ ''_block'' @ str_int block @ ''_branch2b'')
        = Inr bn_b"
    "conv2d f W (''conv_stage'' @ str_int stage @ ''_block'' @ str_int block @ ''_branch2c'')
        c3 1 1 Same = Inr conv_c"
    "batch_norm f W (''bn_stage'' @ str_int stage @ ''_block'' @ str_int block @ ''_branch2c'')
        = Inr bn_c"
    and out: "out = Relu (Add
               (Call bn_c (Call conv_c
                 (Relu (Call bn_b (Call conv_b
                   (Relu (Call bn_a (Call conv_a inputs))))))))
               inputs)"
    by blast
  have sc: "shortcut_path out = Some inputs"
    by (simp add: out)
  have "main_path out' = main_path out"
    if "conv_block f W stage block inputs (c1, c2, c3) k 1 = Inr out'" for out'
    using conv_block_layers [OF that] l by (auto simp: out)
  moreover note identity_block_ignores_shortcut_entries [of f W stage block inputs c1 c2 c3 k]
  ultimately show ?thesis
    using l out sc assms by (simp only: simp_thms) blast
qed

theorem identity_block_structure_witness:
  "identity_block id tagged_archive 0 1 (Input [56, 56, 128] ''x'') (32, 32, 128) 3
     = Inr (Relu (Add (example_main_path ''1'' 128 (Input [56, 56, 128] ''x''))
                      (Input [56, 56, 128] ''x'')))
   \<and> (\<exists>out'. conv_block id tagged_archive 0 1 (Input [56, 56, 128] ''x'') (32, 32, 128) 3 1 = Inr out'
        \<and> main_path out' = Some (example_main_path ''1'' 128 (Input [56, 56, 128] ''x'')))"
proof -
  have h: "identity_block id tagged_archive 0 1 (Input [56, 56, 128] ''x'') (32, 32, 128) 3
     = Inr (Relu (Add (example_main_path ''1'' 128 (Input [56, 56, 128] ''x''))
                      (Input [56, 56, 128] ''x'')))"
    by (simp add: identity_block_def example_main_path_def block_eval)
  have "\<not> isl (conv_block id tagged_archive 0 1 (Input [56, 56, 128] ''x'') (32, 32, 128) 3 1)"
    by (simp add: conv_block_def block_eval)
  then obtain out' where
    c: "conv_block id tagged_archive 0 1 (Input [56, 56, 128] ''x'') (32, 32, 128) 3 1 = Inr out'"
    using not_isl_Inr by blast
  from identity_block_structure [OF h] c
  have "main_path out' = Some (example_main_path ''1'' 128 (Input [56, 56, 128] ''x''))"
    by auto
  with h c show ?thesis by blast
qed

section \<open>Shapes inside an identity block\<close>

lemma window_dim_Same_1 [simp]: "window_dim Same k (Suc 0) d = Inr d"
  by (simp add: window_dim_def split: option.splits)


lemma identity_block_forward:
  assumes x: "shape_of inputs = Inr [b, h, w, Some C]"
    and l: "conv2d f W (''conv_stage'' @ str_int stage @ ''_block'' @ str_int block @ ''_branch2a'')
        c1 1 1 Same = Inr conv_a"
    "batch_norm f W (''bn_stage'' @ str_int stage @ ''_block'' @ str_int block @ ''_branch2a'')
        = Inr bn_a"
    "conv2d f W (''conv_stage'' @ str_int stage @ ''_block'' @ str_int block @ ''_branch2b'')
        c2 k 1 Same = Inr conv_b"
    "batch_norm f W (''bn_stage'' @ str_int stage @ ''_block'' @ str_int block @ ''_branch2b'')
        = Inr bn_b"
    "conv2d f W (''conv_stage'' @ str_int stage @ ''_block'' @ str_int block @ ''_branch2c'')
        c3 1 1 Same = Inr conv_c"
    "batch_norm f W (''bn_stage'' @ str_int stage @ ''_block'' @ str_int block @ ''_branch2c'')
        = Inr bn_c"
  shows "identity_block f W stage block inputs (c1, c2, c3) k
         = andthen (add (Call bn_c (Call conv_c
                 (Relu (Call bn_b (Call conv_b
                   (Relu (Call bn_a (Call conv_a inputs)))))))) inputs) relu
       \<and> shape_of (Call bn_c (Call conv_c
                 (Relu (Call bn_b (Call conv_b
                   (Relu (Call bn_a (Call conv_a inputs)))))))) = Inr [b, h, w, Some c3]"
proof -
  from l obtain kwa bwa kwb bwb kwc bwc where
    c: "conv_a = Conv2D (''conv_stage'' @ str_int stage @ ''_block'' @ str_int block @ ''_branch2a'')
                   c1 1 1 Same kwa bwa"
       "conv_b = Conv2D (''conv_stage'' @ str_int stage @ ''_block'' @ str_int block @ ''_branch2b'')
                   c2 k 1 Same kwb bwb"
       "conv_c = Conv2D (''conv_stage'' @ str_int stage @ ''_block'' @ str_int block @ ''_branch2c'')
                   c3 1 1 Same kwc bwc"
    unfolding conv2d_Inr by blast
  from l obtain ga ba ma va gb bb mb vb gc bc mc vc where
    n: "bn_a = BatchNormalization
                 (''bn_stage'' @ str_int stage @ ''_block'' @ str_int block @ ''_branch2a'')
                 (1 / 100000) ga ba ma va"
       "bn_b = BatchNormalization
                 (''bn_stage'' @ str_int stage @ ''_block'' @ str_int block @ ''_branch2b'')
                 (1 / 100000) gb bb mb vb"
       "bn_c = BatchNormalization
                 (''bn_stage'' @ str_int stage @ ''_block'' @ str_int block @ ''_branch2c'')
                 (1 / 100000) gc bc mc vc"
    unfolding batch_norm_Inr by blast
  have s1: "shape_of (Call conv_a inputs) = Inr [b, h, w, Some c1]"
    unfolding c using x by (simp add: window_shape_def)
  have s2: "shape_of (Call bn_a (Call conv_a inputs)) = Inr [b, h, w, Some c1]"
    unfolding n using s1 by simp
  have s3: "shape_of (Call conv_b (Relu (Call bn_a (Call conv_a inputs))))
            = Inr [b, h, w, Some c2]"
    unfolding c(2) using s2 by (simp add: window_shape_def)
  have s4: "shape_of (Call bn_b (Call conv_b (Relu (Call bn_a (Call conv_a inputs)))))
            = Inr [b, h, w, Some c2]"
    unfolding n(2) using s3 by simp
  have s5: "shape_of (Call conv_c (Relu (Call bn_b (Call conv_b
              (Relu (Call bn_a (Call conv_a inputs)))))))
            = Inr [b, h, w, Some c3]"
    unfolding c(3) using s4 by (simp add: window_shape_def)
  have s6: "shape_of (Call bn_c (Call conv_c (Relu (Call bn_b (Call conv_b
              (Relu (Call bn_a (Call conv_a inputs))))))))
            = Inr [b, h, w, Some c3]"
    unfolding n(3) using s5 by simp
  have "identity_block f W stage block inputs (c1, c2, c3) k
         = andthen (add (Call bn_c (Call conv_c
                 (Relu (Call bn_b (Call conv_b
                   (Relu (Call bn_a (Call conv_a inputs)))))))) inputs) relu"
    unfolding identity_block_def using l s1 s2 s3 s4 s5 s6
    by (simp add: Let_def call_def relu_def symbolic_def)
  with s6 show ?thesis by simp
qed





section \<open>Shapes of the blocks\<close>

lemma window_dim_Same: "window_dim Same k s d = Inr (same_dim s d)"
  by (simp add: window_dim_def same_dim_def split: option.splits)

lemma same_dim_1 [simp]: "same_dim (Suc 0) d = d"
  by (cases d) (simp_all add: same_dim_def)

lemma broadcast_dim_same: "broadcast_dim d d = Inr d"
  by (simp add: broadcast_dim_def split: option.splits)

lemma merge_shape_same:
  "merge_shape [b, h, w, c] [b, h, w, c] = Inr [b, h, w, c]"
  by (simp add: merge_shape_def compute_elemwise_op_output_shape_def broadcast_dim_same)

lemma merge_shape_channels:
  assumes "merge_shape [b, h, w, Some c3] [b, h, w, Some C] = Inr s" "c3 \<noteq> 1"
  shows "s = [b, h, w, Some c3]"
proof -
  have "broadcast_dim (Some c3) (Some C) = Inr (Some c3) \<or> isl (broadcast_dim (Some c3) (Some C))"
    using assms(2) by (simp add: broadcast_dim_def)
  then show ?thesis
    using assms(1)
    by (auto simp: merge_shape_def compute_elemwise_op_output_shape_def broadcast_dim_same
        andthen_def split: sum.splits)
qed

lemma conv_block_forward:
  assumes x: "shape_of inputs = Inr [b, h, w, Some C]"
    and l: "conv2d f W (''conv_stage'' @ str_int stage @ ''_block'' @ str_int block @ ''_proj_shortcut'')
        c3 1 s Same = Inr conv_s"
    "batch_norm f W (''bn_stage'' @ str_int stage @ ''_block'' @ str_int block @ ''_proj_shortcut'')
        = Inr bn_s"
    "conv2d f W (''conv_stage'' @ str_int stage @ ''_block'' @ str_int block @ ''_branch2a'')
        c1 1 s Same = Inr conv_a"
    "batch_norm f W (''bn_stage'' @ str_int stage @ ''_block'' @ str_int block @ ''_branch2a'')
        = Inr bn_a"
    "conv2d f W (''conv_stage'' @ str_int stage @ ''_block'' @ str_int block @ ''_branch2b'')
        c2 k 1 Same = Inr conv_b"
    "batch_norm f W (''bn_stage'' @ str_int stage @ ''_block'' @ str_int block @ ''_branch2b'')
        = Inr bn_b"
    "conv2d f W (''conv_stage'' @ str_int stage @ ''_block'' @ str_int block @ ''_branch2c'')
        c3 1 1 Same = Inr conv_c"
    "batch_norm f W (''bn_stage'' @ str_int stage @ ''_block'' @ str_int block @ ''_branch2c'')
        = Inr bn_c"
  shows "conv_block f W stage block inputs (c1, c2, c3) k s
         = andthen (add (Call bn_c (Call conv_c
                 (Relu (Call bn_b (Call conv_b
                   (Relu (Call bn_a (Call conv_a inputs))))))))
                 (Call bn_s (Call conv_s inputs))) relu
       \<and> shape_of (Call bn_c (Call conv_c
                 (Relu (Call bn_b (Call conv_b
                   (Relu (Call bn_a (Call conv_a inputs))))))))
           = Inr [b, same_dim s h, same_dim s w, Some c3]
       \<and> shape_of (Call bn_s (Call conv_s inputs)) = Inr [b, same_dim s h, same_dim s w, Some c3]"
proof -
  from l obtain kws bws kwa bwa kwb bwb kwc bwc where
    c: "conv_s = Conv2D (''conv_stage'' @ str_int stage @ ''_block'' @ str_int block @ ''_proj_shortcut'')
                   c3 1 s Same kws bws"
       "conv_a = Conv2D (''conv_stage'' @ str_int stage @ ''_block'' @ str_int block @ ''_branch2a'')
                   c1 1 s Same kwa bwa"
       "conv_b = Conv2D (''conv_stage'' @ str_int stage @ ''_block'' @ str_int block @ ''_branch2b'')
                   c2 k 1 Same kwb bwb"
       "conv_c = Conv2D (''conv_stage'' @ str_int stage @ ''_block'' @ str_int block @ ''_branch2c'')
                   c3 1 1 Same kwc bwc"
    unfolding conv2d_Inr by blast
  from l obtain gs bs ms vs ga ba ma va gb bb mb vb gc bc mc vc where
    n: "bn_s = BatchNormalization
                 (''bn_stage'' @ str_int stage @ ''_block'' @ str_int block @ ''_proj_shortcut'')
                 (1 / 100000) gs bs ms vs"
       "bn_a = BatchNormalization
                 (''bn_stage'' @ str_int stage @ ''_block'' @ str_int block @ ''_branch2a'')
                 (1 / 100000) ga ba ma va"
       "bn_b = BatchNormalization
                 (''bn_stage'' @ str_int stage @ ''_block'' @ str_int block @ ''_branch2b'')
                 (1 / 100000) gb bb mb vb"
       "bn_c = BatchNormalization
                 (''bn_stage'' @ str_int stage @ ''_block'' @ str_int block @ ''_branch2c'')
                 (1 / 100000) gc bc mc vc"
    unfolding batch_norm_Inr by blast
  let ?S = "\<lambda>n. Inr [b, same_dim s h, same_dim s w, Some n] :: error + shape"
  have t1: "shape_of (Call conv_s inputs) = ?S c3"
    unfolding c using x by (simp add: window_shape_def window_dim_Same)
  have t2: "shape_of (Call bn_s (Call conv_s inputs)) = ?S c3"
    unfolding n using t1 by simp
  have s1: "shape_of (Call conv_a inputs) = ?S c1"
    unfolding c using x by (simp add: window_shape_def window_dim_Same)
  have s2: "shape_of (Call bn_a (Call conv_a inputs)) = ?S c1"
    unfolding n using s1 by simp
  have s3: "shape_of (Call conv_b (Relu (Call bn_a (Call conv_a inputs)))) = ?S c2"
    unfolding c(3) using s2 by (simp add: window_shape_def window_dim_Same)
  have s4: "shape_of (Call bn_b (Call conv_b (Relu (Call bn_a (Call conv_a inputs))))) = ?S c2"
    unfolding n(3) using s3 by simp
  have s5: "shape_of (Call conv_c (Relu (Call bn_b (Call conv_b
              (Relu (Call bn_a (Call conv_a inputs))))))) = ?S c3"
    unfolding c(4) using s4 by (simp add: window_shape_def window_dim_Same)
  have s6: "shape_of (Call bn_c (Call conv_c (Relu (Call bn_b (Call conv_b
              (Relu (Call bn_a (Call conv_a inputs)))))))) = ?S c3"
    unfolding n(4) using s5 by simp
  have "conv_block f W stage block inputs (c1, c2, c3) k s
         = andthen (add (Call bn_c (Call conv_c
                 (Relu (Call bn_b (Call conv_b
                   (Relu (Call bn_a (Call conv_a inputs))))))))
                 (Call bn_s (Call conv_s inputs))) relu"
    unfolding conv_block_def using l t1 t2 s1 s2 s3 s4 s5 s6
    by (simp add: Let_def call_def relu_def symbolic_def)
  with s6 t2 show ?thesis by simp
qed

lemma conv_block_shape:
  assumes "conv_block f W stage block inputs (c1, c2, c3) k s = Inr out"
    and x: "shape_of inputs = Inr [b, h, w, Some C]"
  shows "shape_of out = Inr [b, same_dim s h, same_dim s w, Some c3]"
proof -
  from conv_block_layers [OF assms(1)] obtain conv_s bn_s conv_a bn_a conv_b bn_b conv_c bn_c where
    l: "conv2d f W (''conv_stage'' @ str_int stage @ ''_block'' @ str_int block @ ''_proj_shortcut'')
        c3 1 s Same = Inr conv_s"
    "batch_norm f W (''bn_stage'' @ str_int stage @ ''_block'' @ str_int block @ ''_proj_shortcut'')
        = Inr bn_s"
    "conv2d f W (''conv_stage'' @ str_int stage @ ''_block'' @ str_int block @ ''_branch2a'')
        c1 1 s Same = Inr conv_a"
    "batch_norm f W (''bn_stage'' @ str_int stage @ ''_block'' @ str_int block @ ''_branch2a'')
        = Inr bn_a"
    "conv2d f W (''conv_stage'' @ str_int stage @ ''_block'' @ str_int block @ ''_branch2b'')
        c2 k 1 Same = Inr conv_b"
    "batch_norm f W (''bn_stage'' @ str_int stage @ ''_block'' @ str_int block @ ''_branch2b'')
        = Inr bn_b"
    "conv2d f W (''conv_stage'' @ str_int stage @ ''_block'' @ str_int block @ ''_branch2c'')
        c3 1 1 Same = Inr conv_c"
    "batch_norm f W (''bn_stage'' @ str_int stage @ ''_block'' @ str_int block @ ''_branch2c'')
        = Inr bn_c"
    and out: "out = Relu (Add
               (Call bn_c (Call conv_c
                 (Relu (Call bn_b (Call conv_b
                   (Relu (Call bn_a (Call conv_a inputs))))))))
               (Call bn_s (Call conv_s inputs)))"
    by blast
  note fw = conv_block_forward [OF x l]
  show ?thesis
    unfolding out using fw by (simp add: merge_shape_same)
qed

lemma identity_block_shape:
  assumes "identity_block f W stage block inputs (c1, c2, c3) k = Inr out"
    and x: "shape_of inputs = Inr [b, h, w, Some C]" and c3: "c3 \<noteq> 1"
  shows "shape_of out = Inr [b, h, w, Some c3]"
proof -
  from identity_block_layers [OF assms(1)] obtain conv_a bn_a conv_b bn_b conv_c bn_c where
    l: "conv2d f W (''conv_stage'' @ str_int stage @ ''_block'' @ str_int block @ ''_branch2a'')
        c1 1 1 Same = Inr conv_a"
    "batch_norm f W (''bn_stage'' @ str_int stage @ ''_block'' @ str_int block @ ''_branch2a'')
        = Inr bn_a"
    "conv2d f W (''conv_stage'' @ str_int stage @ ''_block'' @ str_int block @ ''_branch2b'')
        c2 k 1 Same = Inr conv_b"
    "batch_norm f W (''bn_stage'' @ str_int stage @ ''_block'' @ str_int block @ ''_branch2b'')
        = Inr bn_b"
    "conv2d f W (''conv_stage'' @ str_int stage @ ''_block'' @ str_int block @ ''_branch2c'')
        c3 1 1 Same = Inr conv_c"
    "batch_norm f W (''bn_stage'' @ str_int stage @ ''_block'' @ str_int block @ ''_branch2c'')
        = Inr bn_c"
    and out: "out = Relu (Add
               (Call bn_c (Call conv_c
                 (Relu (Call bn_b (Call conv_b
                   (Relu (Call bn_a (Call conv_a inputs))))))))
               inputs)"
    by blast
  note fw = identity_block_forward [OF x l]
  from assms(1) fw obtain y where
    "add (Call bn_c (Call conv_c (Relu (Call bn_b (Call conv_b
       (Relu (Call bn_a (Call conv_a inputs)))))))) inputs = Inr y"
    by (auto simp: andthen_eq_Inr)
  then obtain shp where
    "merge_shape [b, h, w, Some c3] [b, h, w, Some C] = Inr shp"
    using fw x by (auto simp: add_Inr)
  from merge_shape_channels [OF this c3] this show ?thesis
    unfolding out using fw x by simp
qed

lemma conv_block_ok:
  assumes W: "\<And>l fld. \<not> isl (get_weights f W l fld)"
    and x: "shape_of inputs = Inr [b, h, w, Some C]" and k: "k \<noteq> 0" "s \<noteq> 0"
  shows "\<not> isl (conv_block f W stage block inputs (c1, c2, c3) k s)"
proof -
  have cv: "n \<noteq> 0 \<Longrightarrow> m \<noteq> 0 \<Longrightarrow> \<exists>l. conv2d f W name c n m p = Inr l" for name c n m p
    using not_isl_Inr [OF W [of name "''weights''"]] not_isl_Inr [OF W [of name "''biases''"]]
    by (auto simp: conv2d_Inr)
  have bn: "\<exists>l. batch_norm f W name = Inr l" for name
    using not_isl_Inr [OF W [of name "''scale''"]] not_isl_Inr [OF W [of name "''offset''"]]
      not_isl_Inr [OF W [of name "''mean''"]] not_isl_Inr [OF W [of name "''variance''"]]
    by (auto simp: batch_norm_Inr)
  from cv [of 1 s _ c3 Same] k obtain conv_s where
    ls: "conv2d f W (''conv_stage'' @ str_int stage @ ''_block'' @ str_int block @ ''_proj_shortcut'')
        c3 1 s Same = Inr conv_s" by auto
  from bn obtain bn_s where
    ns: "batch_norm f W (''bn_stage'' @ str_int stage @ ''_block'' @ str_int block @ ''_proj_shortcut'')
        = Inr bn_s" by blast
  from cv [of 1 s _ c1 Same] k obtain conv_a where
    la: "conv2d f W (''conv_stage'' @ str_int stage @ ''_block'' @ str_int block @ ''_branch2a'')
        c1 1 s Same = Inr conv_a" by auto
  from bn obtain bn_a where
    na: "batch_norm f W (''bn_stage'' @ str_int stage @ ''_block'' @ str_int block @ ''_branch2a'')
        = Inr bn_a" by blast
  from cv [of k 1 _ c2 Same] k obtain conv_b where
    lb: "conv2d f W (''conv_stage'' @ str_int stage @ ''_block'' @ str_int block @ ''_branch2b'')
        c2 k 1 Same = Inr conv_b" by auto
  from bn obtain bn_b where
    nb: "batch_norm f W (''bn_stage'' @ str_int stage @ ''_block'' @ str_int block @ ''_branch2b'')
        = Inr bn_b" by blast
  from cv [of 1 1 _ c3 Same] obtain conv_c where
    lc: "conv2d f W (''conv_stage'' @ str_int stage @ ''_block'' @ str_int block @ ''_branch2c'')
        c3 1 1 Same = Inr conv_c" by auto
  from bn obtain bn_c where
    nc: "batch_norm f W (''bn_stage'' @ str_int stage @ ''_block'' @ str_int block @ ''_branch2c'')
        = Inr bn_c" by blast
  note fw = conv_block_forward [OF x ls ns la na lb nb lc nc]
  show ?thesis
    using fw by (simp add: add_def relu_def symbolic_def merge_shape_same)
qed

lemma identity_block_ok:
  assumes W: "\<And>l fld. \<not> isl (get_weights f W l fld)"
    and x: "shape_of inputs = Inr [b, h, w, Some c3]" and k: "k \<noteq> 0"
  shows "\<not> isl (identity_block f W stage block inputs (c1, c2, c3) k)"
proof -
  have cv: "n \<noteq> 0 \<Longrightarrow> m \<noteq> 0 \<Longrightarrow> \<exists>l. conv2d f W name c n m p = Inr l" for name c n m p
    using not_isl_Inr [OF W [of name "''weights''"]] not_isl_Inr [OF W [of name "''biases''"]]
    by (auto simp: conv2d_Inr)
  have bn: "\<exists>l. batch_norm f W name = Inr l" for name
    using not_isl_Inr [OF W [of name "''scale''"]] not_isl_Inr [OF W [of name "''offset''"]]
      not_isl_Inr [OF W [of name "''mean''"]] not_isl_Inr [OF W [of name "''variance''"]]
    by (auto simp: batch_norm_Inr)
  from cv [of 1 1 _ c1 Same] obtain conv_a where
    la: "conv2d f W (''conv_stage'' @ str_int stage @ ''_block'' @ str_int block @ ''_branch2a'')
        c1 1 1 Same = Inr conv_a" by auto
  from bn obtain bn_a where
    na: "batch_norm f W (''bn_stage'' @ str_int stage @ ''_block'' @ str_int block @ ''_branch2a'')
        = Inr bn_a" by blast
  from cv [of k 1 _ c2 Same] k obtain conv_b where
    lb: "conv2d f W (''conv_stage'' @ str_int stage @ ''_block'' @ str_int block @ ''_branch2b'')
        c2 k 1 Same = Inr conv_b" by auto
  from bn obtain bn_b where
    nb: "batch_norm f W (''bn_stage'' @ str_int stage @ ''_block'' @ str_int block @ ''_branch2b'')
        = Inr bn_b" by blast
  from cv [of 1 1 _ c3 Same] obtain conv_c where
    lc: "conv2d f W (''conv_stage'' @ str_int stage @ ''_block'' @ str_int block @ ''_branch2c'')
        c3 1 1 Same = Inr conv_c" by auto
  from bn obtain bn_c where
    nc: "batch_norm f W (''bn_stage'' @ str_int stage @ ''_block'' @ str_int block @ ''_branch2c'')
        = Inr bn_c" by blast
  note fw = identity_block_forward [OF x la na lb nb lc nc]
  show ?thesis
    using fw x by (simp add: add_def relu_def symbolic_def merge_shape_same)
qed

section \<open>The assembled network, step by step\<close>

lemma softmax_Inr:
  "softmax x name = Inr t \<longleftrightarrow> (t = Softmax x name \<and> (\<exists>s. shape_of (Softmax x name) = Inr s))"
  by (simp add: softmax_def symbolic_Inr)

lemma pad_Inr:
  "pad x ps mode = Inr t \<longleftrightarrow> (t = Pad x ps mode \<and> (\<exists>s. shape_of (Pad x ps mode) = Inr s))"
  by (simp add: pad_def symbolic_Inr)





lemma reshape_rows_shape:
  "compute_output_shape (Reshape [- 1, 1024]) [b, Some H, Some V, Some 1024]
   = Inr [b, Some (H * V), Some 1024]"
  by (simp add: reshape_shape_def nat_mult_distrib)




lemma make_steps:
  assumes "make_open_nsfw_model_and_load_weights f W (h, w, c) = Inr m"
  obtains x p0 conv_1 a1 bn_1 a2 a3 x0 x1 x2 x3 x4 x5 x6 x7 x8 x9 x10 x11 x12 x13 x14 x15 x16
    pool flat fc logits out
  where "symbolic (Input [h, w, c] ''input'') = Inr x"
    and "pad x [(0, 0), (3, 3), (3, 3), (0, 0)] ''CONSTANT'' = Inr p0"
    and "conv2d f W ''conv_1'' 64 7 2 Valid = Inr conv_1"
    and "call conv_1 p0 = Inr a1"
    and "batch_norm f W ''bn_1'' = Inr bn_1"
    and "call bn_1 a1 = Inr a2"
    and "relu a2 = Inr a3"
    and "call (MaxPooling2D 3 2 Same) a3 = Inr x0"
    and "conv_block f W 0 0 x0 (32, 32, 128) 3 1 = Inr x1"
    and "identity_block f W 0 1 x1 (32, 32, 128) 3 = Inr x2"
    and "identity_block f W 0 2 x2 (32, 32, 128) 3 = Inr x3"
    and "conv_block f W 1 0 x3 (64, 64, 256) 3 2 = Inr x4"
    and "identity_block f W 1 1 x4 (64, 64, 256) 3 = Inr x5"
    and "identity_block f W 1 2 x5 (64, 64, 256) 3 = Inr x6"
    and "identity_block f W 1 3 x6 (64, 64, 256) 3 = Inr x7"
    and "conv_block f W 2 0 x7 (128, 128, 512) 3 2 = Inr x8"
    and "identity_block f W 2 1 x8 (128, 128, 512) 3 = Inr x9"
    and "identity_block f W 2 2 x9 (128, 128, 512) 3 = Inr x10"
    and "identity_block f W 2 3 x10 (128, 128, 512) 3 = Inr x11"
    and "identity_block f W 2 4 x11 (128, 128, 512) 3 = Inr x12"
    and "identity_block f W 2 5 x12 (128, 128, 512) 3 = Inr x13"
    and "conv_block f W 3 0 x13 (256, 256, 1024) 3 2 = Inr x14"
    and "identity_block f W 3 1 x14 (256, 256, 1024) 3 = Inr x15"
    and "identity_block f W 3 2 x15 (256, 256, 1024) 3 = Inr x16"
    and "call (AveragePooling2D 7 1 Valid ''pool'') x16 = Inr pool"
    and "call (Reshape [- 1, 1024]) pool = Inr flat"
    and "fully_connected f W ''fc_nsfw'' 2 = Inr fc"
    and "call fc flat = Inr logits"
    and "softmax logits ''predictions'' = Inr out"
    and "m = \<lparr>model_inputs = x, model_outputs = out\<rparr>"
  using assms
  unfolding make_open_nsfw_model_and_load_weights_def prod.case andthen_eq_Inr sum.inject
  by (elim exE conjE) (rule that, (assumption | rule sym)+)

lemma fully_connected_Inr:
  "fully_connected f W name units = Inr l \<longleftrightarrow>
     (\<exists>kw bw.
        get_weights f W name ''weights'' = Inr kw
      \<and> get_weights f W name ''biases'' = Inr bw
      \<and> l = Dense name units kw bw)"
  unfolding fully_connected_def andthen_eq_Inr by auto

lemma same_dim_2: "same_dim 2 (Some n) = Some ((n + 2 - 1) div 2)"
  by (simp add: same_dim_def)


lemma call_ok:
  assumes "compute_output_shape l s = Inr s'" "shape_of x = Inr s"
  shows "call l x = Inr (Call l x) \<and> shape_of (Call l x) = Inr s'"
  using assms by (simp add: call_def symbolic_def)

lemma make_ok:
  assumes W: "\<And>l fld. \<not> isl (get_weights f W l fld)"
    and h: "1 \<le> h" "7 \<le> final_size h" and w: "1 \<le> w" "7 \<le> final_size w"
  shows "\<not> isl (make_open_nsfw_model_and_load_weights f W (h, w, c))"
proof -
  let ?x = "Input [h, w, c] ''input'' :: 'a tensor"
  let ?p0 = "Pad ?x [(0, 0), (3, 3), (3, 3), (0, 0)] ''CONSTANT''"
  have x: "symbolic ?x = Inr ?x"
    by (simp add: symbolic_def)
  have p0: "pad ?x [(0, 0), (3, 3), (3, 3), (0, 0)] ''CONSTANT'' = Inr ?p0"
    and sp0: "shape_of ?p0 = Inr [None, Some (3 + h + 3), Some (3 + w + 3), Some c]"
    by (simp_all add: pad_def symbolic_def)
  from not_isl_Inr [OF W [of "''conv_1''" "''weights''"]]
    not_isl_Inr [OF W [of "''conv_1''" "''biases''"]]
  obtain kw1 bw1 where
    conv_1: "conv2d f W ''conv_1'' 64 7 2 Valid = Inr (Conv2D ''conv_1'' 64 7 2 Valid kw1 bw1)"
    by (auto simp: conv2d_Inr)
  let ?c1 = "Conv2D ''conv_1'' 64 7 2 Valid kw1 bw1"
  let ?S1 = "[None, Some ((3 + h + 3 - 7) div 2 + 1), Some ((3 + w + 3 - 7) div 2 + 1), Some 64]"
  have "compute_output_shape ?c1 [None, Some (3 + h + 3), Some (3 + w + 3), Some c] = Inr ?S1"
    using h w by (simp add: window_shape_def window_dim_def)
  note a1 = call_ok [OF this sp0]
  from not_isl_Inr [OF W [of "''bn_1''" "''scale''"]] not_isl_Inr [OF W [of "''bn_1''" "''offset''"]]
    not_isl_Inr [OF W [of "''bn_1''" "''mean''"]] not_isl_Inr [OF W [of "''bn_1''" "''variance''"]]
  obtain g1 b1 m1 v1 where
    bn_1: "batch_norm f W ''bn_1'' = Inr (BatchNormalization ''bn_1'' (1 / 100000) g1 b1 m1 v1)"
    by (auto simp: batch_norm_Inr)
  let ?n1 = "BatchNormalization ''bn_1'' (1 / 100000) g1 b1 m1 v1"
  have "compute_output_shape ?n1 ?S1 = Inr ?S1"
    by simp
  note a2 = call_ok [OF this a1 [THEN conjunct2]]
  let ?a2 = "Call ?n1 (Call ?c1 ?p0)"
  have a3: "relu ?a2 = Inr (Relu ?a2)" and sa3: "shape_of (Relu ?a2) = Inr ?S1"
    using a2 by (simp_all add: relu_def symbolic_def)
  have "compute_output_shape (MaxPooling2D 3 2 Same :: 'a layer) ?S1
        = Inr [None, Some (stem_size h), Some (stem_size w), Some 64]"
    by (simp add: window_shape_def window_dim_Same same_dim_2 stem_size_def)
  note x0 = call_ok [OF this sa3]
  define x0 where "x0 = Call (MaxPooling2D 3 2 Same) (Relu ?a2)"
  note sx0 = x0 [THEN conjunct2, folded x0_def]
  from conv_block_ok [OF W sx0, of 3 1 0 0 32 32 128] obtain x1 where
    x1: "conv_block f W 0 0 x0 (32, 32, 128) 3 1 = Inr x1"
    using not_isl_Inr by fastforce
  note sx1 = conv_block_shape [OF x1 sx0, unfolded One_nat_def same_dim_1]
  from identity_block_ok [OF W sx1, of 3 0 1 32 32] obtain x2 where
    x2: "identity_block f W 0 1 x1 (32, 32, 128) 3 = Inr x2"
    using not_isl_Inr by fastforce
  have sx2: "shape_of x2 = Inr [None, Some (stem_size h), Some (stem_size w), Some 128]"
    using identity_block_shape [OF x2 sx1] by simp
  from identity_block_ok [OF W sx2, of 3 0 2 32 32] obtain x3 where
    x3: "identity_block f W 0 2 x2 (32, 32, 128) 3 = Inr x3"
    using not_isl_Inr by fastforce
  have sx3: "shape_of x3 = Inr [None, Some (stem_size h), Some (stem_size w), Some 128]"
    using identity_block_shape [OF x3 sx2] by simp
  let ?h1 = "(stem_size h + 2 - 1) div 2" and ?w1 = "(stem_size w + 2 - 1) div 2"
  from conv_block_ok [OF W sx3, of 3 2 1 0 64 64 256] obtain x4 where
    x4: "conv_block f W 1 0 x3 (64, 64, 256) 3 2 = Inr x4"
    using not_isl_Inr by fastforce
  have sx4: "shape_of x4 = Inr [None, Some ?h1, Some ?w1, Some 256]"
    using conv_block_shape [OF x4 sx3] by (simp only: same_dim_2)
  from identity_block_ok [OF W sx4, of 3 1 1 64 64] obtain x5 where
    x5: "identity_block f W 1 1 x4 (64, 64, 256) 3 = Inr x5"
    using not_isl_Inr by fastforce
  have sx5: "shape_of x5 = Inr [None, Some ?h1, Some ?w1, Some 256]"
    using identity_block_shape [OF x5 sx4] by simp
  from identity_block_ok [OF W sx5, of 3 1 2 64 64] obtain x6 where
    x6: "identity_block f W 1 2 x5 (64, 64, 256) 3 = Inr x6"
    using not_isl_Inr by fastforce
  have sx6: "shape_of x6 = Inr [None, Some ?h1, Some ?w1, Some 256]"
    using identity_block_shape [OF x6 sx5] by simp
  from identity_block_ok [OF W sx6, of 3 1 3 64 64] obtain x7 where
    x7: "identity_block f W 1 3 x6 (64, 64, 256) 3 = Inr x7"
    using not_isl_Inr by fastforce
  have sx7: "shape_of x7 = Inr [None, Some ?h1, Some ?w1, Some 256]"
    using identity_block_shape [OF x7 sx6] by simp
  let ?h2 = "(?h1 + 2 - 1) div 2" and ?w2 = "(?w1 + 2 - 1) div 2"
  from conv_block_ok [OF W sx7, of 3 2 2 0 128 128 512] obtain x8 where
    x8: "conv_block f W 2 0 x7 (128, 128, 512) 3 2 = Inr x8"
    using not_isl_Inr by fastforce
  have sx8: "shape_of x8 = Inr [None, Some ?h2, Some ?w2, Some 512]"
    using conv_block_shape [OF x8 sx7] by (simp only: same_dim_2)
  from identity_block_ok [OF W sx8, of 3 2 1 128 128] obtain x9 where
    x9: "identity_block f W 2 1 x8 (128, 128, 512) 3 = Inr x9"
    using not_isl_Inr by fastforce
  have sx9: "shape_of x9 = Inr [None, Some ?h2, Some ?w2, Some 512]"
    using identity_block_shape [OF x9 sx8] by simp
  from identity_block_ok [OF W sx9, of 3 2 2 128 128] obtain x10 where
    x10: "identity_block f W 2 2 x9 (128, 128, 512) 3 = Inr x10"
    using not_isl_Inr by fastforce
  have sx10: "shape_of x10 = Inr [None, Some ?h2, Some ?w2, Some 512]"
    using identity_block_shape [OF x10 sx9] by simp
  from identity_block_ok [OF W sx10, of 3 2 3 128 128] obtain x11 where
    x11: "identity_block f W 2 3 x10 (128, 128, 512) 3 = Inr x11"
    using not_isl_Inr by fastforce
  have sx11: "shape_of x11 = Inr [None, Some ?h2, Some ?w2, Some 512]"
    using identity_block_shape [OF x11 sx10] by simp
  from identity_block_ok [OF W sx11, of 3 2 4 128 128] obtain x12 where
    x12: "identity_block f W 2 4 x11 (128, 128, 512) 3 = Inr x12"
    using not_isl_Inr by fastforce
  have sx12: "shape_of x12 = Inr [None, Some ?h2, Some ?w2, Some 512]"
    using identity_block_shape [OF x12 sx11] by simp
  from identity_block_ok [OF W sx12, of 3 2 5 128 128] obtain x13 where
    x13: "identity_block f W 2 5 x12 (128, 128, 512) 3 = Inr x13"
    using not_isl_Inr by fastforce
  have sx13: "shape_of x13 = Inr [None, Some ?h2, Some ?w2, Some 512]"
    using identity_block_shape [OF x13 sx12] by simp
  from conv_block_ok [OF W sx13, of 3 2 3 0 256 256 1024] obtain x14 where
    x14: "conv_block f W 3 0 x13 (256, 256, 1024) 3 2 = Inr x14"
    using not_isl_Inr by fastforce
  have sx14: "shape_of x14 = Inr [None, Some (final_size h), Some (final_size w), Some 1024]"
    using conv_block_shape [OF x14 sx13] by (simp only: same_dim_2 final_size_def)
  from identity_block_ok [OF W sx14, of 3 3 1 256 256] obtain x15 where
    x15: "identity_block f W 3 1 x14 (256, 256, 1024) 3 = Inr x15"
    using not_isl_Inr by fastforce
  have sx15: "shape_of x15 = Inr [None, Some (final_size h), Some (final_size w), Some 1024]"
    using identity_block_shape [OF x15 sx14] by simp
  from identity_block_ok [OF W sx15, of 3 3 2 256 256] obtain x16 where
    x16: "identity_block f W 3 2 x15 (256, 256, 1024) 3 = Inr x16"
    using not_isl_Inr by fastforce
  have sx16: "shape_of x16 = Inr [None, Some (final_size h), Some (final_size w), Some 1024]"
    using identity_block_shape [OF x16 sx15] by simp
  have "compute_output_shape (AveragePooling2D 7 1 Valid ''pool'' :: 'a layer)
          [None, Some (final_size h), Some (final_size w), Some 1024]
        = Inr [None, Some (final_size h - 6), Some (final_size w - 6), Some 1024]"
    using h w by (auto simp: window_shape_def window_dim_def)
  note pool = call_ok [OF this sx16]
  note flat = call_ok [OF reshape_rows_shape pool [THEN conjunct2]]
  from not_isl_Inr [OF W [of "''fc_nsfw''" "''weights''"]]
    not_isl_Inr [OF W [of "''fc_nsfw''" "''biases''"]]
  obtain kw bw where
    fc: "fully_connected f W ''fc_nsfw'' 2 = Inr (Dense ''fc_nsfw'' 2 kw bw)"
    by (auto simp: fully_connected_Inr)
  have "compute_output_shape (Dense ''fc_nsfw'' 2 kw bw)
          [None, Some ((final_size h - 6) * (final_size w - 6)), Some 1024]
        = Inr [None, Some ((final_size h - 6) * (final_size w - 6)), Some 2]"
    by simp
  note logits = call_ok [OF this flat [THEN conjunct2]]
  have out: "softmax (Call (Dense ''fc_nsfw'' 2 kw bw) (Call (Reshape [- 1, 1024])
               (Call (AveragePooling2D 7 1 Valid ''pool'') x16))) ''predictions''
             = Inr (Softmax (Call (Dense ''fc_nsfw'' 2 kw bw) (Call (Reshape [- 1, 1024])
               (Call (AveragePooling2D 7 1 Valid ''pool'') x16))) ''predictions'')"
    using logits by (simp add: softmax_def symbolic_def)
  show ?thesis
    unfolding make_open_nsfw_model_and_load_weights_def prod.case
    by (simp only: x p0 conv_1 a1 bn_1 a2 a3 x0 [folded x0_def] x1 x2 x3 x4 x5 x6 x7 x8 x9 x10
        x11 x12 x13 x14 x15 x16 pool flat fc logits out andthen_simps sum.disc
        not_False_eq_True)
qed

section \<open>The topology of the assembled network\<close>

lemma erase_simps [simp]:
  "erase (Input dims name) = Input dims name"
  "erase (Pad x ps mode) = Pad (erase x) ps mode"
  "erase (Relu x) = Relu (erase x)"
  "erase (Softmax x name) = Softmax (erase x) name"
  "erase (Add a b) = Add (erase a) (erase b)"
  "erase (Call (Conv2D name n k s p kw bw) x) = Call (conv_spec name n k s p) (erase x)"
  "erase (Call (BatchNormalization name eps g bt mn vr) x)
     = Call (BatchNormalization name eps () () () ()) (erase x)"
  "erase (Call (Dense name units kw bw) x) = Call (Dense name units () ()) (erase x)"
  "erase (Call (MaxPooling2D k s p) x) = Call (MaxPooling2D k s p) (erase x)"
  "erase (Call (AveragePooling2D k s p name) x) = Call (AveragePooling2D k s p name) (erase x)"
  "erase (Call (Reshape target) x) = Call (Reshape target) (erase x)"
  by (simp_all add: erase_def conv_spec_def)

lemma conv_block_erase:
  assumes "conv_block f W stage block inputs (c1, c2, c3) k s = Inr out"
  shows "erase out = projection_block_spec stage block (c1, c2, c3) k s (erase inputs)"
proof -
  from conv_block_layers [OF assms] show ?thesis
    unfolding conv2d_Inr batch_norm_Inr
    by (auto simp: projection_block_spec_def bottleneck_spec_def block_name_def norm_spec_def)
qed

lemma identity_block_erase:
  assumes "identity_block f W stage block inputs (c1, c2, c3) k = Inr out"
  shows "erase out = identity_block_spec stage block (c1, c2, c3) k (erase inputs)"
proof -
  from identity_block_layers [OF assms] show ?thesis
    unfolding conv2d_Inr batch_norm_Inr
    by (auto simp: identity_block_spec_def bottleneck_spec_def block_name_def norm_spec_def)
qed


lemma topology_unfold:
  "open_nsfw_topology dims =
     head_spec
      (identity_block_spec 3 2 (256, 256, 1024) 3
      (identity_block_spec 3 1 (256, 256, 1024) 3
      (projection_block_spec 3 0 (256, 256, 1024) 3 2
      (identity_block_spec 2 5 (128, 128, 512) 3
      (identity_block_spec 2 4 (128, 128, 512) 3
      (identity_block_spec 2 3 (128, 128, 512) 3
      (identity_block_spec 2 2 (128, 128, 512) 3
      (identity_block_spec 2 1 (128, 128, 512) 3
      (projection_block_spec 2 0 (128, 128, 512) 3 2
      (identity_block_spec 1 3 (64, 64, 256) 3
      (identity_block_spec 1 2 (64, 64, 256) 3
      (identity_block_spec 1 1 (64, 64, 256) 3
      (projection_block_spec 1 0 (64, 64, 256) 3 2
      (identity_block_spec 0 2 (32, 32, 128) 3
      (identity_block_spec 0 1 (32, 32, 128) 3
      (projection_block_spec 0 0 (32, 32, 128) 3 1
      (stem_spec (Input dims ''input''))))))))))))))))))"
  by (simp add: open_nsfw_topology_def stage_schedule_def stage_spec_def eval_nat_numeral)

lemma make_erase:
  assumes "make_open_nsfw_model_and_load_weights f W (h, w, c) = Inr m"
  shows "erase (model_outputs m) = open_nsfw_topology [h, w, c]"
proof -
  from assms obtain x p0 conv_1 a1 bn_1 a2 a3 x0 x1 x2 x3 x4 x5 x6 x7 x8 x9 x10
    x11 x12 x13 x14 x15 x16 pool flat fc logits out where
    x: "symbolic (Input [h, w, c] ''input'') = Inr x" and
    p0: "pad x [(0, 0), (3, 3), (3, 3), (0, 0)] ''CONSTANT'' = Inr p0" and
    conv_1: "conv2d f W ''conv_1'' 64 7 2 Valid = Inr conv_1" and
    a1: "call conv_1 p0 = Inr a1" and
    bn_1: "batch_norm f W ''bn_1'' = Inr bn_1" and
    a2: "call bn_1 a1 = Inr a2" and
    a3: "relu a2 = Inr a3" and
    x0: "call (MaxPooling2D 3 2 Same) a3 = Inr x0" and
    x1: "conv_block f W 0 0 x0 (32, 32, 128) 3 1 = Inr x1" and
    x2: "identity_block f W 0 1 x1 (32, 32, 128) 3 = Inr x2" and
    x3: "identity_block f W 0 2 x2 (32, 32, 128) 3 = Inr x3" and
    x4: "conv_block f W 1 0 x3 (64, 64, 256) 3 2 = Inr x4" and
    x5: "identity_block f W 1 1 x4 (64, 64, 256) 3 = Inr x5" and
    x6: "identity_block f W 1 2 x5 (64, 64, 256) 3 = Inr x6" and
    x7: "identity_block f W 1 3 x6 (64, 64, 256) 3 = Inr x7" and
    x8: "conv_block f W 2 0 x7 (128, 128, 512) 3 2 = Inr x8" and
    x9: "identity_block f W 2 1 x8 (128, 128, 512) 3 = Inr x9" and
    x10: "identity_block f W 2 2 x9 (128, 128, 512) 3 = Inr x10" and
    x11: "identity_block f W 2 3 x10 (128, 128, 512) 3 = Inr x11" and
    x12: "identity_block f W 2 4 x11 (128, 128, 512) 3 = Inr x12" and
    x13: "identity_block f W 2 5 x12 (128, 128, 512) 3 = Inr x13" and
    x14: "conv_block f W 3 0 x13 (256, 256, 1024) 3 2 = Inr x14" and
    x15: "identity_block f W 3 1 x14 (256, 256, 1024) 3 = Inr x15" and
    x16: "identity_block f W 3 2 x15 (256, 256, 1024) 3 = Inr x16" and
    pool: "call (AveragePooling2D 7 1 Valid ''pool'') x16 = Inr pool" and
    flat: "call (Reshape [- 1, 1024]) pool = Inr flat" and
    fc: "fully_connected f W ''fc_nsfw'' 2 = Inr fc" and
    logits: "call fc flat = Inr logits" and
    out: "softmax logits ''predictions'' = Inr out" and
    m: "m = \<lparr>model_inputs = x, model_outputs = out\<rparr>"
    by (rule make_steps)
  have stem: "erase x0 = stem_spec (Input [h, w, c] ''input'')"
    using x p0 conv_1 a1 bn_1 a2 a3 x0
    by (auto simp: symbolic_Inr pad_Inr call_Inr relu_Inr conv2d_Inr batch_norm_Inr
        stem_spec_def norm_spec_def)
  have head: "erase out = head_spec (erase x16)"
    using pool flat fc logits out
    by (auto simp: call_Inr softmax_Inr fully_connected_Inr head_spec_def)
  show ?thesis
    unfolding topology_unfold
    by (simp only: m head stem [symmetric] select_convs
        conv_block_erase [OF x1] identity_block_erase [OF x2] identity_block_erase [OF x3]
        conv_block_erase [OF x4] identity_block_erase [OF x5] identity_block_erase [OF x6]
        identity_block_erase [OF x7]
        conv_block_erase [OF x8] identity_block_erase [OF x9] identity_block_erase [OF x10]
        identity_block_erase [OF x11] identity_block_erase [OF x12] identity_block_erase [OF x13]
        conv_block_erase [OF x14] identity_block_erase [OF x15] identity_block_erase [OF x16])
qed

lemma tagged_archive_complete: "\<not> isl (get_weights id tagged_archive l fld)"
  by (simp add: get_weights_def tagged_archive_def)

lemma final_size_224: "final_size 224 = 7"
  by (simp add: final_size_def stem_size_def)


text \<open>
  Claim C1: whenever the network is assembled, its graph, the parameters left out, is the
  graph of the schedule: the stem (zero-padding by 3 on each spatial edge, the 7x7
  convolution with 64 filters, stride 2 and no padding, normalization, relu, the 3x3
  max-pool of stride 2 with padding "same"), the four stages with widths (32, 32, 128),
  (64, 64, 256), (128, 128, 512), (256, 256, 1024), projection strides 1, 2, 2, 2 and
  2, 3, 5, 2 identity blocks (3, 4, 6, 3 blocks in all), and one head that ends in the
  softmax of a dense layer of 2 units.
\<close>

theorem assembled_topology:
  assumes "make_open_nsfw_model_and_load_weights f W (h, w, c) = Inr m"
  shows "erase (model_outputs m) = open_nsfw_topology [h, w, c]
    \<and> open_nsfw_topology [h, w, c]
        = head_spec (fold stage_spec
            [(0, (32, 32, 128), 1, 2), (1, (64, 64, 256), 2, 3),
             (2, (128, 128, 512), 2, 5), (3, (256, 256, 1024), 2, 2)]
            (stem_spec (Input [h, w, c] ''input'')))
    \<and> map (\<lambda>(stage, widths, stride, identity_blocks). 1 + identity_blocks) stage_schedule
        = [3, 4, 6, 3]"
  using make_erase [OF assms]
  by (simp add: open_nsfw_topology_def stage_schedule_def)

theorem assembled_topology_witness:
  "andthen (make_open_nsfw_model_and_load_weights id tagged_archive (224, 224, 3))
     (\<lambda>m. Inr (erase (model_outputs m)))
   = Inr (open_nsfw_topology [224, 224, 3])"
proof -
  have "\<not> isl (make_open_nsfw_model_and_load_weights id tagged_archive (224, 224, 3))"
    by (rule make_ok) (simp_all add: tagged_archive_complete final_size_224)
  then obtain m where
    mk: "make_open_nsfw_model_and_load_weights id tagged_archive (224, 224, 3) = Inr m"
    using not_isl_Inr by blast
  from assembled_topology [OF mk] show ?thesis
    by (simp add: mk)
qed





end
